theory Spec2Isabelle
  imports Complex_Main
begin

section \<open>JavaScript preliminaries\<close>

text \<open>
  Strings are lists of 8-bit characters; \<open>toLowerCase\<close> is the ASCII case mapping
  (group names, header names and protocol tags are ASCII identifiers).
  Timestamps are integral numbers of seconds or milliseconds (\<open>Date.now()\<close> and the
  epoch values of the server are integers), so every arithmetic operation below is exact
  in double precision as long as the values stay below \<open>2^53\<close>.
\<close>

text \<open>A thrown value: an \<open>Error\<close> instance with its message, or any other value.\<close>

datatype error = Error string | NonError

text \<open>\<open>error instanceof Error ? error.message : fallback\<close>\<close>

fun error_message :: "error \<Rightarrow> string \<Rightarrow> string" where
  "error_message (Error m) fallback = m"
| "error_message NonError fallback = fallback"

text \<open>Truthiness of a \<open>string | null\<close> value: \<open>null\<close> and the empty string are falsy.\<close>

fun truthy :: "string option \<Rightarrow> bool" where
  "truthy None = False"
| "truthy (Some s) = (s \<noteq> [])"

definition toLowerChar :: "char \<Rightarrow> char" where
  "toLowerChar c =
     (case map_of (zip ''ABCDEFGHIJKLMNOPQRSTUVWXYZ'' ''abcdefghijklmnopqrstuvwxyz'') c of
        Some l \<Rightarrow> l
      | None \<Rightarrow> c)"

definition toLowerCase :: "string \<Rightarrow> string" where
  "toLowerCase s = map toLowerChar s"

text \<open>\<open>s.split(sep)\<close> for a one-character separator: never the empty array.\<close>

fun split :: "char \<Rightarrow> string \<Rightarrow> string list" where
  "split sep [] = [[]]"
| "split sep (c # cs) =
     (if c = sep then [] # split sep cs
      else (case split sep cs of [] \<Rightarrow> [[c]] | p # ps \<Rightarrow> (c # p) # ps))"

text \<open>Decimal rendering of a number inside a template literal.\<close>

definition digit_char :: "nat \<Rightarrow> char" where
  "digit_char d = ''0123456789'' ! d"

function show_nat :: "nat \<Rightarrow> string" where
  "show_nat n = (if n < 10 then [digit_char n] else show_nat (n div 10) @ [digit_char (n mod 10)])"
  by pat_completeness auto
termination
  by (relation "measure (\<lambda>n. n)") auto

declare show_nat.simps [simp del]


section \<open>Session store and auth negotiation (\<open>src/api/auth.ts\<close>)\<close>

subsection \<open>Protocol data\<close>

text \<open>
  Modelled from the spec: the declarations of \<open>src/api/types.ts\<close> are missing; a
  response carries a state that is \<open>success\<close> with the credential, \<open>denied\<close> with a
  reason, or \<open>continue\<close> with the allowed mechanisms, and a request carries a step
  (\<open>init2\<close>, \<open>begin\<close> or \<open>cred\<close>). A challenge and a passkey assertion are opaque
  payloads.
\<close>

datatype auth_allowed =
    Anonymous | BackupCode | Password | Totp
  | SecurityKey string | Passkey string

datatype auth_state = Success string | Denied string | Continue "auth_allowed list"

record auth_response =
  state :: auth_state

datatype auth_issue = IssueToken | IssueCookie

datatype auth_cred =
    CredPassword string | CredPasskey string | CredTotp int
  | CredBackupCode string | CredAnonymous

datatype auth_step = Init2 string auth_issue bool | Begin string | Cred auth_cred

datatype request_body = StepBody auth_step | IssueBody auth_issue | NoBody

record http_request =
  url :: string
  http_method :: string
  content_type :: "string option"
  authorization :: "string option"
  session_header :: "string option"
  body :: request_body

text \<open>
  A response as the client reads it: \<open>headers_get\<close> is \<open>response.headers.get\<close>,
  \<open>text_body\<close> and \<open>json_body\<close> are the results of the two body readers (either may reject).
\<close>

record http_response =
  http_status :: nat
  headers_get :: "string \<Rightarrow> string option"
  text_body :: "error + string"
  json_body :: "error + auth_response"

text \<open>\<open>response.ok\<close>: the status is in the range 200-299.\<close>

definition ok :: "http_response \<Rightarrow> bool" where
  "ok r = (200 \<le> http_status r \<and> http_status r \<le> 299)"

text \<open>
  The transport: \<open>fetch\<close> answers a request with a response, or rejects. What an
  awaited call delivers is a value of \<open>error + 'a\<close>: \<open>Inl\<close> is a rejection (a throw).
\<close>

type_synonym fetch = "http_request \<Rightarrow> error + http_response"

subsection \<open>Module state\<close>

text \<open>
  The module keeps the bearer credential (\<open>tokenStore\<close>) and the auth session handle
  (\<open>authSessionId\<close>); \<open>wire\<close> is the trace of the requests handed to \<open>fetch\<close>, oldest
  first.
\<close>

record api_state =
  token :: "string option"
  authSessionId :: "string option"
  wire :: "http_request list"

text \<open>
  Modelled from the spec: \<open>tokenStore\<close> of \<open>src/api/http.ts\<close> is missing; the Session
  Store holds the current bearer credential, which \<open>set\<close> replaces, \<open>get\<close> reads and
  \<open>clear\<close> destroys.
\<close>

definition tokenStore_get :: "api_state \<Rightarrow> string option" where
  "tokenStore_get st = token st"

definition tokenStore_set :: "string \<Rightarrow> api_state \<Rightarrow> api_state" where
  "tokenStore_set c st = st\<lparr>token := Some c\<rparr>"

definition tokenStore_clear :: "api_state \<Rightarrow> api_state" where
  "tokenStore_clear st = st\<lparr>token := None\<rparr>"

definition AUTH_SESSION_HEADER :: string where
  "AUTH_SESSION_HEADER = ''X-KANIDM-AUTH-SESSION-ID''"

definition authHeaders :: "api_state \<Rightarrow> string option" where
  "authHeaders st = (if \<not> truthy (authSessionId st) then None else authSessionId st)"

text \<open>The \<open>Authorization\<close> header is set only for a truthy token.\<close>

definition bearer :: "string option \<Rightarrow> string option" where
  "bearer t = (case t of None \<Rightarrow> None | Some s \<Rightarrow> if s = [] then None else Some (''Bearer '' @ s))"

text \<open>
  \<open>response.headers.get(AUTH_SESSION_HEADER) ?? response.headers.get(AUTH_SESSION_HEADER.toLowerCase())\<close>
\<close>

definition sessionFromHeader :: "http_response \<Rightarrow> string option" where
  "sessionFromHeader r =
     (case headers_get r AUTH_SESSION_HEADER of
        Some v \<Rightarrow> Some v
      | None \<Rightarrow> headers_get r (toLowerCase AUTH_SESSION_HEADER))"

definition request_failed :: "nat \<Rightarrow> string \<Rightarrow> error" where
  "request_failed code txt = Error (''Request failed ('' @ show_nat code @ ''): '' @ txt)"

subsection \<open>Operations\<close>

text \<open>
  An \<open>async\<close> function that awaits \<open>fetch\<close> is written in two halves: \<open>f_start\<close> runs up
  to the call of \<open>fetch\<close> and yields the request (now on the wire), \<open>f_finish\<close> is the
  continuation run with what \<open>fetch\<close> delivered; \<open>f\<close> itself is their composition.
\<close>

definition handleAuthResponse :: "auth_response \<Rightarrow> api_state \<Rightarrow> auth_response \<times> api_state" where
  "handleAuthResponse response st =
     (case state response of
        Success c \<Rightarrow> (response, (tokenStore_set c st)\<lparr>authSessionId := None\<rparr>)
      | Denied _ \<Rightarrow> (response, st\<lparr>authSessionId := None\<rparr>)
      | Continue _ \<Rightarrow> (response, st))"

definition authRequest_start :: "auth_step \<Rightarrow> api_state \<Rightarrow> http_request \<times> api_state" where
  "authRequest_start payload st =
     (let req = \<lparr>url = ''/v1/auth'', http_method = ''POST'',
                 content_type = Some ''application/json'',
                 authorization = bearer (tokenStore_get st),
                 session_header = authHeaders st,
                 body = StepBody payload\<rparr>
      in (req, st\<lparr>wire := wire st @ [req]\<rparr>))"

definition authRequest_finish ::
  "error + http_response \<Rightarrow> api_state \<Rightarrow> (error + auth_response) \<times> api_state" where
  "authRequest_finish fetched st =
     (case fetched of
        Inl e \<Rightarrow> (Inl e, st)
      | Inr response \<Rightarrow>
          (let st1 = (if truthy (sessionFromHeader response)
                      then st\<lparr>authSessionId := sessionFromHeader response\<rparr> else st)
           in if \<not> ok response then
                (case text_body response of
                   Inl e \<Rightarrow> (Inl e, st1)
                 | Inr t \<Rightarrow> (Inl (request_failed (http_status response) t), st1))
              else
                (case json_body response of
                   Inl e \<Rightarrow> (Inl e, st1)
                 | Inr j \<Rightarrow> (case handleAuthResponse j st1 of (r, st2) \<Rightarrow> (Inr r, st2)))))"

definition authRequest :: "fetch \<Rightarrow> auth_step \<Rightarrow> api_state \<Rightarrow> (error + auth_response) \<times> api_state" where
  "authRequest fetch payload st =
     (case authRequest_start payload st of (req, st1) \<Rightarrow> authRequest_finish (fetch req) st1)"

definition authInit :: "fetch \<Rightarrow> string \<Rightarrow> auth_issue \<Rightarrow> bool \<Rightarrow> api_state \<Rightarrow> (error + auth_response) \<times> api_state" where
  "authInit fetch username issue privileged = authRequest fetch (Init2 username issue privileged)"

definition authBegin :: "fetch \<Rightarrow> string \<Rightarrow> api_state \<Rightarrow> (error + auth_response) \<times> api_state" where
  "authBegin fetch mech = authRequest fetch (Begin mech)"

definition authPassword :: "fetch \<Rightarrow> string \<Rightarrow> api_state \<Rightarrow> (error + auth_response) \<times> api_state" where
  "authPassword fetch password = authRequest fetch (Cred (CredPassword password))"

definition authPasskey :: "fetch \<Rightarrow> string \<Rightarrow> api_state \<Rightarrow> (error + auth_response) \<times> api_state" where
  "authPasskey fetch passkey = authRequest fetch (Cred (CredPasskey passkey))"

definition authTotp :: "fetch \<Rightarrow> int \<Rightarrow> api_state \<Rightarrow> (error + auth_response) \<times> api_state" where
  "authTotp fetch totp = authRequest fetch (Cred (CredTotp totp))"

definition authBackupCode :: "fetch \<Rightarrow> string \<Rightarrow> api_state \<Rightarrow> (error + auth_response) \<times> api_state" where
  "authBackupCode fetch backupcode = authRequest fetch (Cred (CredBackupCode backupcode))"

definition authAnonymous :: "fetch \<Rightarrow> api_state \<Rightarrow> (error + auth_response) \<times> api_state" where
  "authAnonymous fetch = authRequest fetch (Cred CredAnonymous)"

definition reauthBegin_start :: "auth_issue \<Rightarrow> api_state \<Rightarrow> http_request \<times> api_state" where
  "reauthBegin_start issue st =
     (let req = \<lparr>url = ''/v1/reauth'', http_method = ''POST'',
                 content_type = Some ''application/json'',
                 authorization = bearer (tokenStore_get st),
                 session_header = authHeaders st,
                 body = IssueBody issue\<rparr>
      in (req, st\<lparr>wire := wire st @ [req]\<rparr>))"

definition reauthBegin_finish ::
  "error + http_response \<Rightarrow> api_state \<Rightarrow> (error + auth_response) \<times> api_state" where
  "reauthBegin_finish fetched st =
     (case fetched of
        Inl e \<Rightarrow> (Inl e, st)
      | Inr response \<Rightarrow>
          (let st1 = (if truthy (sessionFromHeader response)
                      then st\<lparr>authSessionId := sessionFromHeader response\<rparr> else st)
           in if \<not> ok response then
                (case text_body response of
                   Inl e \<Rightarrow> (Inl e, st1)
                 | Inr t \<Rightarrow> (Inl (request_failed (http_status response) t), st1))
              else
                (case json_body response of
                   Inl e \<Rightarrow> (Inl e, st1)
                 | Inr j \<Rightarrow> (case handleAuthResponse j st1 of (r, st2) \<Rightarrow> (Inr r, st2)))))"

definition reauthBegin :: "fetch \<Rightarrow> auth_issue \<Rightarrow> api_state \<Rightarrow> (error + auth_response) \<times> api_state" where
  "reauthBegin fetch issue st =
     (case reauthBegin_start issue st of (req, st1) \<Rightarrow> reauthBegin_finish (fetch req) st1)"

definition logout_start :: "api_state \<Rightarrow> http_request \<times> api_state" where
  "logout_start st =
     (let req = \<lparr>url = ''/v1/logout'', http_method = ''GET'',
                 content_type = None,
                 authorization = bearer (tokenStore_get st),
                 session_header = authHeaders st,
                 body = NoBody\<rparr>
      in (req, st\<lparr>wire := wire st @ [req]\<rparr>))"

definition logout_finish :: "error + http_response \<Rightarrow> api_state \<Rightarrow> (error + unit) \<times> api_state" where
  "logout_finish fetched st =
     (case fetched of
        Inl e \<Rightarrow> (Inl e, st)
      | Inr response \<Rightarrow>
          if \<not> ok response then
            (case text_body response of
               Inl e \<Rightarrow> (Inl e, st)
             | Inr t \<Rightarrow> (Inl (request_failed (http_status response) t), st))
          else (Inr (), st))"

definition logout :: "fetch \<Rightarrow> api_state \<Rightarrow> (error + unit) \<times> api_state" where
  "logout fetch st = (case logout_start st of (req, st1) \<Rightarrow> logout_finish (fetch req) st1)"

definition clearAuthToken :: "api_state \<Rightarrow> api_state" where
  "clearAuthToken st = (tokenStore_clear st)\<lparr>authSessionId := None\<rparr>"


section \<open>Authentication state (\<open>AuthProvider\<close> of \<open>src/auth/AuthContext.tsx\<close>)\<close>

datatype auth_status = Checking | Authenticated | Unauthenticated

record user_profile =
  name :: string
  displayName :: string
  memberOf :: "string list"

text \<open>
  The React state of the provider next to the module state of the API layer. A state
  setter writes the live state; the values a callback reads are those of the render that
  created it.
\<close>

record auth_ctx =
  api :: api_state
  status :: auth_status
  user :: "user_profile option"

text \<open>
  \<open>try { await logout() } finally { clearAuthToken(); setStatus('unauthenticated'); setUser(null) }\<close>:
  the \<open>finally\<close> block runs on either outcome, and the outcome of the \<open>try\<close> block is the
  outcome of \<open>signOut\<close>.
\<close>

definition signOut :: "fetch \<Rightarrow> 'a auth_ctx_scheme \<Rightarrow> (error + unit) \<times> 'a auth_ctx_scheme" where
  "signOut fetch st =
     (case logout fetch (api st) of
        (r, a) \<Rightarrow> (r, st\<lparr>api := clearAuthToken a, status := Unauthenticated, user := None\<rparr>))"


section \<open>Access evaluation (\<open>AccessProvider\<close> of \<open>src/auth/AuthContext.tsx\<close>)\<close>

subsection \<open>Group permissions\<close>

definition SELF_NAME_WRITE_GROUPS :: "string list" where
  "SELF_NAME_WRITE_GROUPS = [''idm_all_persons'', ''idm_people_self_name_write'']"

definition SELF_MAIL_WRITE_GROUPS :: "string list" where
  "SELF_MAIL_WRITE_GROUPS = [''idm_people_self_mail_write'']"

definition SELF_WRITE_GROUPS :: "string list" where
  "SELF_WRITE_GROUPS = [''idm_all_persons'']"

text \<open>\<open>group.split('@')[0]?.toLowerCase() ?? ''\<close>\<close>

definition normalizeGroupName :: "string \<Rightarrow> string" where
  "normalizeGroupName grp =
     (case split (CHR ''@'') grp of [] \<Rightarrow> [] | p # _ \<Rightarrow> toLowerCase p)"

definition hasAnyGroup :: "string list \<Rightarrow> string list \<Rightarrow> bool" where
  "hasAnyGroup member_of groups =
     (let groupSet = set (map toLowerCase groups)
      in list_ex (\<lambda>entry. normalizeGroupName entry \<in> groupSet) member_of)"

record access_permissions =
  nameAllowed :: bool
  emailAllowed :: bool
  selfWriteAllowed :: bool

text \<open>\<open>const memberOf = user?.memberOf ?? []\<close>\<close>

definition memberOf_of :: "user_profile option \<Rightarrow> string list" where
  "memberOf_of u = (case u of None \<Rightarrow> [] | Some p \<Rightarrow> memberOf p)"

definition permissions :: "string list \<Rightarrow> access_permissions" where
  "permissions member_of =
     \<lparr>nameAllowed = hasAnyGroup member_of SELF_NAME_WRITE_GROUPS,
      emailAllowed = hasAnyGroup member_of SELF_MAIL_WRITE_GROUPS,
      selfWriteAllowed = hasAnyGroup member_of SELF_WRITE_GROUPS\<rparr>"

subsection \<open>The values of a decoded token\<close>

text \<open>
  Modelled from the spec: the schema of \<open>UserAuthToken\<close> (\<open>src/api/schema\<close>) is
  missing; the token has a \<open>purpose\<close>, which is read-only or \<open>readwrite\<close> with an
  expiry. The token is decoded JSON, so \<open>purpose\<close> holds whatever JavaScript value the
  response had there; an object is the list of its members (keys distinct).
\<close>

datatype jsval =
    Undefined | Null | Bool bool | Num int | Str string
  | Arr "jsval list" | Obj "(string \<times> jsval) list"

fun typeof :: "jsval \<Rightarrow> string" where
  "typeof Undefined = ''undefined''"
| "typeof Null = ''object''"
| "typeof (Bool b) = ''boolean''"
| "typeof (Num n) = ''number''"
| "typeof (Str s) = ''string''"
| "typeof (Arr xs) = ''object''"
| "typeof (Obj kvs) = ''object''"

definition type_error :: error where
  "type_error = Error ''TypeError''"

text \<open>
  \<open>key in v\<close>: a \<open>TypeError\<close> unless \<open>v\<close> is an object; \<open>v.key\<close>: a \<open>TypeError\<close> on
  \<open>null\<close> and \<open>undefined\<close>, \<open>undefined\<close> for a member that is absent. The keys read
  below (\<open>readwrite\<close>, \<open>expiry\<close>) are no members of an array or of a primitive's wrapper.
\<close>

fun js_in :: "string \<Rightarrow> jsval \<Rightarrow> error + bool" where
  "js_in k (Obj kvs) = Inr (map_of kvs k \<noteq> None)"
| "js_in k (Arr xs) = Inr False"
| "js_in k v = Inl type_error"

fun js_get :: "jsval \<Rightarrow> string \<Rightarrow> error + jsval" where
  "js_get Undefined k = Inl type_error"
| "js_get Null k = Inl type_error"
| "js_get (Obj kvs) k = Inr (case map_of kvs k of None \<Rightarrow> Undefined | Some v \<Rightarrow> v)"
| "js_get v k = Inr Undefined"

record user_auth_token =
  purpose :: jsval

subsection \<open>The privilege window\<close>

text \<open>
  \<open>Date.parse\<close> and \<open>Number\<close> on a string are parameters (\<open>None\<close> is \<open>NaN\<close>).
  The result \<open>None\<close> of \<open>parseUatExpiry\<close> is \<open>null\<close>.
\<close>

type_synonym str_parser = "string \<Rightarrow> int option"

fun parseUatExpiry :: "str_parser \<Rightarrow> str_parser \<Rightarrow> jsval \<Rightarrow> int option" where
  "parseUatExpiry date_parse to_number Null = None"
| "parseUatExpiry date_parse to_number Undefined = None"
| "parseUatExpiry date_parse to_number (Num expiry) =
     Some (if expiry < 1000000000000 then expiry * 1000 else expiry)"
| "parseUatExpiry date_parse to_number (Str expiry) =
     (case date_parse expiry of
        Some parsed \<Rightarrow> Some parsed
      | None \<Rightarrow>
          (case to_number expiry of
             Some numeric \<Rightarrow> Some (if numeric < 1000000000000 then numeric * 1000 else numeric)
           | None \<Rightarrow> None))"
| "parseUatExpiry date_parse to_number v = None"

text \<open>
  The guard of \<open>isReadwrite\<close> is evaluated left to right; \<open>!expiry\<close> holds for \<open>null\<close>
  and for \<open>0\<close>.
\<close>

definition isReadwrite :: "str_parser \<Rightarrow> str_parser \<Rightarrow> jsval \<Rightarrow> int \<Rightarrow> error + bool" where
  "isReadwrite date_parse to_number p now =
     (if typeof p \<noteq> ''object'' then Inr False
      else if p = Null then Inr False
      else case js_in ''readwrite'' p of
        Inl e \<Rightarrow> Inl e
      | Inr False \<Rightarrow> Inr False
      | Inr True \<Rightarrow>
          (case js_get p ''readwrite'' of
             Inl e \<Rightarrow> Inl e
           | Inr rw \<Rightarrow>
               (case js_get rw ''expiry'' of
                  Inl e \<Rightarrow> Inl e
                | Inr x \<Rightarrow>
                    (let expiry = parseUatExpiry date_parse to_number x
                     in case expiry of
                          None \<Rightarrow> Inr False
                        | Some e \<Rightarrow>
                            if e = 0 then Inr False
                            else (let cutoff = now + 60000 in Inr (e > cutoff))))))"

text \<open>\<open>uat ? isReadwrite(uat.purpose, now) : false\<close>\<close>

definition canEdit ::
  "str_parser \<Rightarrow> str_parser \<Rightarrow> user_auth_token option \<Rightarrow> int \<Rightarrow> error + bool" where
  "canEdit date_parse to_number u now =
     (case u of None \<Rightarrow> Inr False | Some t \<Rightarrow> isReadwrite date_parse to_number (purpose t) now)"

text \<open>
  \<open>uat && typeof uat.purpose === 'object' ? parseUatExpiry(uat.purpose.readwrite.expiry) : null\<close>
\<close>

definition rwExpiry ::
  "str_parser \<Rightarrow> str_parser \<Rightarrow> user_auth_token option \<Rightarrow> error + int option" where
  "rwExpiry date_parse to_number u =
     (case u of
        None \<Rightarrow> Inr None
      | Some t \<Rightarrow>
          if typeof (purpose t) = ''object'' then
            (case js_get (purpose t) ''readwrite'' of
               Inl e \<Rightarrow> Inl e
             | Inr rw \<Rightarrow>
                 (case js_get rw ''expiry'' of
                    Inl e \<Rightarrow> Inl e
                  | Inr x \<Rightarrow> Inr (parseUatExpiry date_parse to_number x)))
          else Inr None)"

text \<open>
  \<open>rwExpiry && rwExpiry > now ? Math.max(1, Math.ceil((rwExpiry - now) / 60000)) : null\<close>
\<close>

definition unlockedMinutes :: "int option \<Rightarrow> int \<Rightarrow> int option" where
  "unlockedMinutes rw now =
     (case rw of
        None \<Rightarrow> None
      | Some e \<Rightarrow>
          if e \<noteq> 0 \<and> e > now
          then Some (max 1 (\<lceil>real_of_int (e - now) / 60000\<rceil>))
          else None)"

text \<open>The window as the component derives it from the token and the clock.\<close>

definition unlockedMinutes_of ::
  "str_parser \<Rightarrow> str_parser \<Rightarrow> user_auth_token option \<Rightarrow> int \<Rightarrow> error + int option" where
  "unlockedMinutes_of date_parse to_number u now =
     (case rwExpiry date_parse to_number u of
        Inl e \<Rightarrow> Inl e
      | Inr rw \<Rightarrow> Inr (unlockedMinutes rw now))"


subsection \<open>The reauthentication flow\<close>

record access_ctx = auth_ctx +
  uat :: "user_auth_token option"
  now :: int
  reauthOpen :: bool
  reauthAllowed :: "auth_allowed list"
  reauthMessage :: "string option"
  reauthLoading :: bool
  reauthTotp :: string
  reauthPassword :: string

text \<open>
  The collaborators of the provider: the two profile requests of the API layer (their
  source is not part of the model; each may read and write the module state), and the
  translation function \<open>t\<close>.
\<close>

record access_env =
  fetchWhoami :: "api_state \<Rightarrow> (error + user_profile) \<times> api_state"
  fetchUserAuthToken :: "api_state \<Rightarrow> (error + user_auth_token) \<times> api_state"
  translate :: "string \<Rightarrow> string"

definition refreshUser ::
  "access_env \<Rightarrow> 'a auth_ctx_scheme \<Rightarrow> (error + user_profile) \<times> 'a auth_ctx_scheme" where
  "refreshUser env st =
     (case fetchWhoami env (api st) of
        (Inl e, a) \<Rightarrow> (Inl e, st\<lparr>api := a\<rparr>)
      | (Inr profile, a) \<Rightarrow> (Inr profile, st\<lparr>api := a, user := Some profile\<rparr>))"

definition setAuthenticated ::
  "access_env \<Rightarrow> 'a auth_ctx_scheme \<Rightarrow> (error + unit) \<times> 'a auth_ctx_scheme" where
  "setAuthenticated env st =
     (case refreshUser env (st\<lparr>status := Authenticated\<rparr>) of
        (Inl e, st1) \<Rightarrow> (Inl e, st1)
      | (Inr profile, st1) \<Rightarrow> (Inr (), st1))"

definition refreshUat :: "access_env \<Rightarrow> 'a access_ctx_scheme \<Rightarrow> 'a access_ctx_scheme" where
  "refreshUat env st =
     (case fetchUserAuthToken env (api st) of
        (Inl e, a) \<Rightarrow> st\<lparr>api := a, uat := None\<rparr>
      | (Inr nextToken, a) \<Rightarrow> st\<lparr>api := a, uat := Some nextToken\<rparr>)"

definition authSucceeded :: "auth_response \<Rightarrow> bool" where
  "authSucceeded response = (case state response of Success c \<Rightarrow> True | _ \<Rightarrow> False)"

text \<open>
  A callback reads the values of the render that created it (\<open>snap\<close>) and writes the live
  state (\<open>st\<close>); after a render the two agree. \<open>beginReauth_start\<close> is the part of
  \<open>beginReauth\<close> before its first suspension, the call of \<open>fetch\<close> inside \<open>reauthBegin\<close>;
  it yields the request that is now awaited, or nothing when a guard returned.
\<close>

definition beginReauth_start ::
  "'a access_ctx_scheme \<Rightarrow> 'a access_ctx_scheme \<Rightarrow> http_request option \<times> 'a access_ctx_scheme" where
  "beginReauth_start snap st =
     (if status snap \<noteq> Authenticated then (None, st)
      else if reauthLoading snap then (None, st)
      else
        (let st1 = st\<lparr>reauthOpen := True, reauthLoading := True, reauthMessage := None,
                       reauthAllowed := [], reauthPassword := [], reauthTotp := []\<rparr>
         in case reauthBegin_start IssueToken (api st1) of
              (req, a) \<Rightarrow> (Some req, st1\<lparr>api := a\<rparr>)))"

definition beginReauth_finish ::
  "access_env \<Rightarrow> error + http_response \<Rightarrow> 'a access_ctx_scheme \<Rightarrow> (error + unit) \<times> 'a access_ctx_scheme" where
  "beginReauth_finish env fetched st =
     (case reauthBegin_finish fetched (api st) of
        (Inl e, a) \<Rightarrow>
          (Inr (), st\<lparr>api := a,
                      reauthMessage := Some (error_message e (translate env ''profile.messageReauthFailed'')),
                      reauthLoading := False\<rparr>)
      | (Inr response, a) \<Rightarrow>
          (let st1 = st\<lparr>api := a\<rparr>
           in if authSucceeded response then
                (case setAuthenticated env st1 of
                   (Inl e, st2) \<Rightarrow>
                     (Inr (), st2\<lparr>reauthMessage := Some (error_message e (translate env ''profile.messageReauthFailed'')),
                                  reauthLoading := False\<rparr>)
                 | (Inr u, st2) \<Rightarrow>
                     (Inr (), (refreshUat env st2)\<lparr>reauthOpen := False, reauthLoading := False\<rparr>))
              else
                (case state response of
                   Continue allowed \<Rightarrow> (Inr (), st1\<lparr>reauthAllowed := allowed, reauthLoading := False\<rparr>)
                 | _ \<Rightarrow>
                     (Inr (), st1\<lparr>reauthMessage := Some (translate env ''profile.messageReauthStartFailed''),
                                  reauthLoading := False\<rparr>))))"

definition beginReauth ::
  "access_env \<Rightarrow> fetch \<Rightarrow> 'a access_ctx_scheme \<Rightarrow> 'a access_ctx_scheme \<Rightarrow> (error + unit) \<times> 'a access_ctx_scheme" where
  "beginReauth env fetch snap st =
     (case beginReauth_start snap st of
        (None, st1) \<Rightarrow> (Inr (), st1)
      | (Some req, st1) \<Rightarrow> beginReauth_finish env (fetch req) st1)"

text \<open>
  \<open>if (reauthOpen || reauthLoading) return; void beginReauth()\<close>: the call returns when
  \<open>beginReauth\<close> suspends, its continuation runs when the response arrives.
\<close>

definition requestReauth ::
  "'a access_ctx_scheme \<Rightarrow> 'a access_ctx_scheme \<Rightarrow> http_request option \<times> 'a access_ctx_scheme" where
  "requestReauth snap st =
     (if reauthOpen snap \<or> reauthLoading snap then (None, st) else beginReauth_start snap st)"

text \<open>The negotiations begun so far: the requests to \<open>/v1/reauth\<close> on the wire.\<close>

definition reauth_requests :: "'a access_ctx_scheme \<Rightarrow> http_request list" where
  "reauth_requests st = filter (\<lambda>r. url r = ''/v1/reauth'') (wire (api st))"


section \<open>Credential update session (\<open>src/components/CredentialSections.tsx\<close>)\<close>

subsection \<open>Status snapshots and intents\<close>

text \<open>
  Modelled from the spec: the schema of \<open>CUStatus\<close> (\<open>src/api/schema\<close>) is missing; a
  status has a primary credential, the enrolled passkeys, the outstanding warnings (by
  name), \<open>can_commit\<close> and \<open>mfaregstate\<close>, which is \<open>None\<close>, \<open>TotpCheck\<close> with a secret,
  \<open>TotpTryAgain\<close>, \<open>TotpNameTryAgain\<close> with a name, \<open>TotpInvalidSha1\<close>, or a passkey or
  backup-code state. The constructors of \<open>cu_reg_state\<close> carry the prefix \<open>Mfa\<close>. A TOTP
  secret, a passkey challenge and a passkey registration are opaque payloads; an intent
  is one of the values passed to \<open>sendCredentialUpdate\<close>.
\<close>

datatype cu_reg_state =
    MfaNone
  | MfaTotpCheck string
  | MfaTotpTryAgain
  | MfaTotpNameTryAgain string
  | MfaTotpInvalidSha1
  | MfaBackupCodes "string list"
  | MfaPasskey string
  | MfaAttestedPasskey string

datatype credential_type =
    TypePassword | TypeGeneratedPassword | TypePasswordMfa "string list" | TypeOther string

record custatus =
  primary :: "credential_type option"
  passkeys :: "string list"
  warnings :: "string list"
  can_commit :: bool
  mfaregstate :: cu_reg_state

datatype cu_intent =
    PasskeyInit
  | PasskeyFinish string string
  | PasskeyRemove string
  | SetPassword string
  | TotpGenerate
  | TotpVerify "int option" string
  | TotpAcceptSha1
  | CancelMfaReg
  | PrimaryRemove

record totp_payload =
  uri :: string
  secret :: string

subsection \<open>Component state and collaborators\<close>

text \<open>
  The props written through \<open>onStatusChange\<close>, \<open>onLoadingChange\<close> and \<open>onMessage\<close>
  (\<open>cu_status\<close>, \<open>loading\<close>, \<open>message\<close>), the local state of the component, and the
  trace \<open>sent\<close> of the intents passed to \<open>sendCredentialUpdate\<close>, oldest first.
  A handler runs on the render it was created in, whose values are those of the state it
  starts from; no value a handler reads is written earlier in the same handler.
\<close>

record cs_state =
  cu_status :: custatus
  loading :: bool
  message :: "string option"
  password :: string
  passwordConfirm :: string
  showPasswordForm :: bool
  passkeyLabel :: string
  passkeyLabelOpen :: bool
  pendingPasskey :: "string option"
  totpPayload :: "totp_payload option"
  totpQr :: "string option"
  totpLabel :: string
  totpCode :: string
  totpError :: "string option"
  totpModalOpen :: bool
  totpSha1Warning :: bool
  passwordNotice :: "string option"
  totpCancelled :: bool
  sent :: "cu_intent list"

text \<open>
  The collaborators: \<open>server\<close> answers the intents sent so far (the last one is the
  current request) with a status or a rejection; \<open>msg\<close> and \<open>msg_name\<close> look a message
  up (the second with a \<open>name\<close> argument); the passkey ceremony, \<open>buildTotpPayload\<close>,
  \<open>formatPasswordQualityError\<close> (given the message of the error) and \<open>Number\<close> on a
  string (\<open>None\<close> is \<open>NaN\<close>) are parameters.
\<close>

record cs_env =
  server :: "cu_intent list \<Rightarrow> error + custatus"
  msg :: "string \<Rightarrow> string"
  msg_name :: "string \<Rightarrow> string \<Rightarrow> string"
  performPasskeyCreation :: "string \<Rightarrow> error + string"
  buildTotpPayload :: "string \<Rightarrow> error + totp_payload"
  formatPasswordQualityError :: "string \<Rightarrow> string option"
  number_of :: "string \<Rightarrow> int option"

definition sendCredentialUpdate :: "cs_env \<Rightarrow> cu_intent \<Rightarrow> cs_state \<Rightarrow> (error + custatus) \<times> cs_state" where
  "sendCredentialUpdate env intent st =
     (server env (sent st @ [intent]), st\<lparr>sent := sent st @ [intent]\<rparr>)"

text \<open>\<open>s.trim()\<close> removes the ASCII white space at both ends.\<close>

definition is_space :: "char \<Rightarrow> bool" where
  "is_space c = (c \<in> set [CHR '' '', CHR 0x09, CHR 0x0A, CHR 0x0B, CHR 0x0C, CHR 0x0D])"

definition trim :: "string \<Rightarrow> string" where
  "trim s = rev (dropWhile is_space (rev (dropWhile is_space s)))"

fun extractPasskeyChallenge :: "cu_reg_state \<Rightarrow> string option" where
  "extractPasskeyChallenge (MfaPasskey c) = Some c"
| "extractPasskeyChallenge s = None"

fun extractTotpSecret :: "cu_reg_state \<Rightarrow> string option" where
  "extractTotpSecret (MfaTotpCheck s) = Some s"
| "extractTotpSecret s = None"

subsection \<open>Handlers\<close>

text \<open>
  Each handler yields what its promise settles to, next to the state: \<open>Inr ()\<close> when it
  returns, \<open>Inl e\<close> when \<open>e\<close> is thrown out of it.
\<close>

definition beginPasskeyEnrollment :: "cs_env \<Rightarrow> cs_state \<Rightarrow> (error + unit) \<times> cs_state" where
  "beginPasskeyEnrollment env st =
     (let st1 = st\<lparr>loading := True, message := None\<rparr>
      in case sendCredentialUpdate env PasskeyInit st1 of
           (Inl e, st2) \<Rightarrow>
             (Inr (), st2\<lparr>message := Some (error_message e (msg env ''messagePasskeyEnrollFailed'')),
                          loading := False\<rparr>)
         | (Inr initStatus, st2) \<Rightarrow>
             (case extractPasskeyChallenge (mfaregstate initStatus) of
                None \<Rightarrow>
                  (Inr (), st2\<lparr>message := Some (msg env ''messagePasskeyChallengeMissing''),
                               loading := False\<rparr>)
              | Some challenge \<Rightarrow>
                  (case performPasskeyCreation env challenge of
                     Inl e \<Rightarrow>
                       (Inr (), st2\<lparr>message := Some (error_message e (msg env ''messagePasskeyEnrollFailed'')),
                                    loading := False\<rparr>)
                   | Inr registration \<Rightarrow>
                       (Inr (), st2\<lparr>pendingPasskey := Some registration, passkeyLabel := [],
                                    passkeyLabelOpen := True, loading := False\<rparr>))))"

definition submitPasskeyLabel :: "cs_env \<Rightarrow> cs_state \<Rightarrow> (error + unit) \<times> cs_state" where
  "submitPasskeyLabel env st =
     (case pendingPasskey st of
        None \<Rightarrow> (Inr (), st)
      | Some pending \<Rightarrow>
          if trim (passkeyLabel st) = [] then
            (Inr (), st\<lparr>message := Some (msg env ''messagePasskeyLabelRequired'')\<rparr>)
          else
            (let st1 = st\<lparr>loading := True, message := None\<rparr>
             in case sendCredentialUpdate env (PasskeyFinish (trim (passkeyLabel st)) pending) st1 of
                  (Inl e, st2) \<Rightarrow>
                    (Inr (), st2\<lparr>message := Some (error_message e (msg env ''messagePasskeyEnrollFailed'')),
                                 loading := False\<rparr>)
                | (Inr nextStatus, st2) \<Rightarrow>
                    (Inr (), st2\<lparr>cu_status := nextStatus, passkeyLabel := [], pendingPasskey := None,
                                 passkeyLabelOpen := False,
                                 message := Some (msg env ''messagePasskeyEnrolled''),
                                 loading := False\<rparr>)))"

definition removePasskey :: "cs_env \<Rightarrow> string \<Rightarrow> cs_state \<Rightarrow> (error + unit) \<times> cs_state" where
  "removePasskey env uuid st =
     (let st1 = st\<lparr>loading := True, message := None\<rparr>
      in case sendCredentialUpdate env (PasskeyRemove uuid) st1 of
           (Inl e, st2) \<Rightarrow>
             (Inr (), st2\<lparr>message := Some (error_message e (msg env ''messagePasskeyRemoveFailed'')),
                          loading := False\<rparr>)
         | (Inr nextStatus, st2) \<Rightarrow> (Inr (), st2\<lparr>cu_status := nextStatus, loading := False\<rparr>))"

definition beginTotpEnrollment :: "cs_env \<Rightarrow> cs_state \<Rightarrow> (error + unit) \<times> cs_state" where
  "beginTotpEnrollment env st =
     (let st1 = st\<lparr>totpError := None, totpSha1Warning := False, totpLabel := [], totpCode := [],
                    totpModalOpen := True, totpCancelled := False\<rparr>;
          st2 = (if totpPayload st = None
                 then st1\<lparr>totpError := Some (msg env ''messageTotpLoading'')\<rparr> else st1);
          st3 = st2\<lparr>loading := True\<rparr>
      in case sendCredentialUpdate env TotpGenerate st3 of
           (Inl e, st4) \<Rightarrow>
             (Inr (), st4\<lparr>totpError := Some (error_message e (msg env ''messageTotpStartFailed'')),
                          loading := False\<rparr>)
         | (Inr nextStatus, st4) \<Rightarrow>
             (case extractTotpSecret (mfaregstate nextStatus) of
                None \<Rightarrow>
                  (Inr (), st4\<lparr>totpError := Some (msg env ''messageTotpSetupMissing''),
                               loading := False\<rparr>)
              | Some s \<Rightarrow>
                  (case buildTotpPayload env s of
                     Inl e \<Rightarrow>
                       (Inr (), st4\<lparr>totpError := Some (error_message e (msg env ''messageTotpStartFailed'')),
                                    loading := False\<rparr>)
                   | Inr payload \<Rightarrow>
                       (Inr (), st4\<lparr>totpPayload := Some payload, totpError := None,
                                    cu_status := nextStatus, loading := False\<rparr>))))"

text \<open>The text the \<open>catch\<close> block of \<open>submitPasswordChange\<close> passes to \<open>onMessage\<close>.\<close>

fun password_failure :: "cs_env \<Rightarrow> error \<Rightarrow> string" where
  "password_failure env (Error m) =
     (case formatPasswordQualityError env m of Some qualityMessage \<Rightarrow> qualityMessage | None \<Rightarrow> m)"
| "password_failure env NonError = msg env ''messagePasswordUpdateFailed''"

definition submitPasswordChange :: "cs_env \<Rightarrow> cs_state \<Rightarrow> (error + unit) \<times> cs_state" where
  "submitPasswordChange env st =
     (if password st = [] \<or> password st \<noteq> passwordConfirm st then
        (Inr (), st\<lparr>message := Some (msg env ''messagePasswordMismatch'')\<rparr>)
      else
        (let st1 = st\<lparr>loading := True, message := None, totpCancelled := False\<rparr>
         in case sendCredentialUpdate env (SetPassword (password st)) st1 of
              (Inl e, st2) \<Rightarrow>
                (Inr (), st2\<lparr>message := Some (password_failure env e), loading := False\<rparr>)
            | (Inr nextStatus, st2) \<Rightarrow>
                (let st3 = st2\<lparr>cu_status := nextStatus, password := [], passwordConfirm := [],
                               showPasswordForm := False,
                               passwordNotice := Some (msg env ''messagePasswordSetNotice''),
                               message := Some (msg env ''messagePasswordStaged'')\<rparr>
                 in if ''MfaRequired'' \<in> set (warnings nextStatus) then
                      (case beginTotpEnrollment env st3 of
                         (Inl e, st4) \<Rightarrow>
                           (Inr (), st4\<lparr>message := Some (password_failure env e), loading := False\<rparr>)
                       | (Inr u, st4) \<Rightarrow> (Inr (), st4\<lparr>loading := False\<rparr>))
                    else (Inr (), st3\<lparr>loading := False\<rparr>))))"

definition submitTotpEnrollment :: "cs_env \<Rightarrow> bool \<Rightarrow> cs_state \<Rightarrow> (error + unit) \<times> cs_state" where
  "submitTotpEnrollment env acceptSha1 st =
     (if totpPayload st = None then (Inr (), st)
      else if \<not> acceptSha1 \<and> (trim (totpLabel st) = [] \<or> trim (totpCode st) = []) then
        (Inr (), st\<lparr>totpError := Some (msg env ''messageTotpNameCodeRequired'')\<rparr>)
      else
        (let st1 = st\<lparr>loading := True, totpError := None\<rparr>;
             intent = (if acceptSha1 then TotpAcceptSha1
                       else TotpVerify (number_of env (totpCode st)) (trim (totpLabel st)))
         in case sendCredentialUpdate env intent st1 of
              (Inl e, st2) \<Rightarrow>
                (Inr (), st2\<lparr>totpError := Some (error_message e (msg env ''messageTotpAddFailed'')),
                             loading := False\<rparr>)
            | (Inr nextStatus, st2) \<Rightarrow>
                (let st3 =
                   (case mfaregstate nextStatus of
                      MfaTotpInvalidSha1 \<Rightarrow>
                        st2\<lparr>totpSha1Warning := True, totpError := Some (msg env ''messageTotpSha1'')\<rparr>
                    | MfaTotpTryAgain \<Rightarrow>
                        st2\<lparr>totpError := Some (msg env ''messageTotpTryAgain'')\<rparr>
                    | MfaTotpNameTryAgain n \<Rightarrow>
                        st2\<lparr>totpError := Some (msg_name env ''messageTotpNameInvalid'' n)\<rparr>
                    | _ \<Rightarrow>
                        st2\<lparr>totpModalOpen := False, totpPayload := None, totpQr := None,
                            totpLabel := [], totpCode := [], totpSha1Warning := False,
                            totpCancelled := False\<rparr>)
                 in (Inr (), st3\<lparr>cu_status := nextStatus, loading := False\<rparr>))))"

definition cancelTotpEnrollment :: "cs_env \<Rightarrow> cs_state \<Rightarrow> (error + unit) \<times> cs_state" where
  "cancelTotpEnrollment env st =
     (let st1 = st\<lparr>loading := True, totpError := None\<rparr>
      in case sendCredentialUpdate env CancelMfaReg st1 of
           (Inl e, st2) \<Rightarrow>
             (Inr (), st2\<lparr>totpError := Some (error_message e (msg env ''messageTotpCancelFailed'')),
                          loading := False\<rparr>)
         | (Inr nextStatus, st2) \<Rightarrow>
             (Inr (), st2\<lparr>cu_status := nextStatus, totpModalOpen := False, totpPayload := None,
                          totpQr := None, totpLabel := [], totpCode := [],
                          totpSha1Warning := False, totpCancelled := True, loading := False\<rparr>))"

definition removePrimaryCredential :: "cs_env \<Rightarrow> cs_state \<Rightarrow> (error + unit) \<times> cs_state" where
  "removePrimaryCredential env st =
     (let st1 = st\<lparr>loading := True, message := None\<rparr>
      in case sendCredentialUpdate env PrimaryRemove st1 of
           (Inl e, st2) \<Rightarrow>
             (Inr (), st2\<lparr>message := Some (error_message e (msg env ''messagePasswordRemoveFailed'')),
                          loading := False\<rparr>)
         | (Inr nextStatus, st2) \<Rightarrow>
             (Inr (), st2\<lparr>cu_status := nextStatus, passwordNotice := None, showPasswordForm := False,
                          totpCancelled := False,
                          message := Some (msg env ''messagePasswordRemoved''),
                          loading := False\<rparr>))"


section \<open>Notions of the specification\<close>

subsection \<open>Group names\<close>

text \<open>
  The group name read the way the specification words it: the portion before any
  \<open>@domain\<close> suffix. \<open>adds_domain g g'\<close>: \<open>g'\<close> is \<open>g\<close> followed by \<open>@\<close> and a domain.
  \<open>group_variant\<close>: one name differs from the other in letter case only, or by an added
  or a removed \<open>@domain\<close> suffix.
\<close>

definition before_at :: "string \<Rightarrow> string" where
  "before_at g = takeWhile (\<lambda>c. c \<noteq> CHR ''@'') g"

definition adds_domain :: "string \<Rightarrow> string \<Rightarrow> bool" where
  "adds_domain g g' = (take (length g) g' = g \<and> take 1 (drop (length g) g') = ''@'')"

definition group_variant :: "string \<Rightarrow> string \<Rightarrow> bool" where
  "group_variant g g' = (toLowerCase g = toLowerCase g' \<or> adds_domain g g' \<or> adds_domain g' g)"

subsection \<open>Purposes and minutes\<close>

text \<open>A token whose purpose is the readwrite variant with expiry \<open>x\<close>.\<close>

definition uat_rw :: "jsval \<Rightarrow> user_auth_token" where
  "uat_rw x = \<lparr>purpose = Obj [(''readwrite'', Obj [(''expiry'', x)])]\<rparr>"

text \<open>\<open>null\<close> read as no minutes at all.\<close>

fun minutes_or_zero :: "int option \<Rightarrow> int" where
  "minutes_or_zero None = 0"
| "minutes_or_zero (Some m) = m"

text \<open>
  \<open>'readwrite' in p\<close> for an object \<open>p\<close>, and the readwrite variant proper: an object
  whose \<open>readwrite\<close> member holds a value (neither \<open>null\<close> nor \<open>undefined\<close>).
\<close>

fun has_readwrite :: "jsval \<Rightarrow> bool" where
  "has_readwrite (Obj kvs) = (map_of kvs ''readwrite'' \<noteq> None)"
| "has_readwrite v = False"

fun readwrite_variant :: "jsval \<Rightarrow> bool" where
  "readwrite_variant (Obj kvs) =
     (case map_of kvs ''readwrite'' of
        None \<Rightarrow> False
      | Some v \<Rightarrow> v \<noteq> Null \<and> v \<noteq> Undefined)"
| "readwrite_variant v = False"

subsection \<open>Operations of the credential update session\<close>

text \<open>
  The operations of the credential update session, the sub-flow each belongs to, and the
  place where a sub-flow shows its message: the TOTP dialog has its own error line, the
  passkey and password sections share the message of the page.
\<close>

datatype cs_op =
    BeginPasskeyEnrollment
  | SubmitPasskeyLabel
  | RemovePasskey string
  | SubmitPasswordChange
  | BeginTotpEnrollment
  | SubmitTotpEnrollment bool
  | CancelTotpEnrollment
  | RemovePrimaryCredential

fun run_op :: "cs_env \<Rightarrow> cs_op \<Rightarrow> cs_state \<Rightarrow> (error + unit) \<times> cs_state" where
  "run_op env BeginPasskeyEnrollment = beginPasskeyEnrollment env"
| "run_op env SubmitPasskeyLabel = submitPasskeyLabel env"
| "run_op env (RemovePasskey uuid) = removePasskey env uuid"
| "run_op env SubmitPasswordChange = submitPasswordChange env"
| "run_op env BeginTotpEnrollment = beginTotpEnrollment env"
| "run_op env (SubmitTotpEnrollment acceptSha1) = submitTotpEnrollment env acceptSha1"
| "run_op env CancelTotpEnrollment = cancelTotpEnrollment env"
| "run_op env RemovePrimaryCredential = removePrimaryCredential env"

datatype sub_flow = PasskeyFlow | PasswordFlow | TotpFlow

fun flow_of :: "cs_op \<Rightarrow> sub_flow" where
  "flow_of BeginPasskeyEnrollment = PasskeyFlow"
| "flow_of SubmitPasskeyLabel = PasskeyFlow"
| "flow_of (RemovePasskey uuid) = PasskeyFlow"
| "flow_of SubmitPasswordChange = PasswordFlow"
| "flow_of RemovePrimaryCredential = PasswordFlow"
| "flow_of BeginTotpEnrollment = TotpFlow"
| "flow_of (SubmitTotpEnrollment acceptSha1) = TotpFlow"
| "flow_of CancelTotpEnrollment = TotpFlow"

fun flow_message :: "sub_flow \<Rightarrow> cs_state \<Rightarrow> string option" where
  "flow_message TotpFlow st = totpError st"
| "flow_message PasskeyFlow st = message st"
| "flow_message PasswordFlow st = message st"

text \<open>
  The text shown for an error \<open>e\<close> that answered the request of an operation: the message of
  the error (for a password, its quality report when it has one), and the operation's own
  fallback text when the thrown value is no \<open>Error\<close>.
\<close>

fun failure_text :: "cs_env \<Rightarrow> cs_op \<Rightarrow> error \<Rightarrow> string" where
  "failure_text env BeginPasskeyEnrollment e = error_message e (msg env ''messagePasskeyEnrollFailed'')"
| "failure_text env SubmitPasskeyLabel e = error_message e (msg env ''messagePasskeyEnrollFailed'')"
| "failure_text env (RemovePasskey uuid) e = error_message e (msg env ''messagePasskeyRemoveFailed'')"
| "failure_text env SubmitPasswordChange e = password_failure env e"
| "failure_text env BeginTotpEnrollment e = error_message e (msg env ''messageTotpStartFailed'')"
| "failure_text env (SubmitTotpEnrollment acceptSha1) e = error_message e (msg env ''messageTotpAddFailed'')"
| "failure_text env CancelTotpEnrollment e = error_message e (msg env ''messageTotpCancelFailed'')"
| "failure_text env RemovePrimaryCredential e = error_message e (msg env ''messagePasswordRemoveFailed'')"

text \<open>
  The local checks: the message key of the check that rejects the input of an operation
  before any request is made.
\<close>

fun local_rejection :: "cs_op \<Rightarrow> cs_state \<Rightarrow> string option" where
  "local_rejection SubmitPasskeyLabel st =
     (if pendingPasskey st \<noteq> None \<and> trim (passkeyLabel st) = []
      then Some ''messagePasskeyLabelRequired'' else None)"
| "local_rejection SubmitPasswordChange st =
     (if password st = [] \<or> password st \<noteq> passwordConfirm st
      then Some ''messagePasswordMismatch'' else None)"
| "local_rejection (SubmitTotpEnrollment acceptSha1) st =
     (if totpPayload st \<noteq> None \<and> \<not> acceptSha1 \<and> (trim (totpLabel st) = [] \<or> trim (totpCode st) = [])
      then Some ''messageTotpNameCodeRequired'' else None)"
| "local_rejection op st = None"

text \<open>\<open>set_flow_message\<close> writes the place where the sub-flow shows its message.\<close>

fun set_flow_message :: "sub_flow \<Rightarrow> string \<Rightarrow> cs_state \<Rightarrow> cs_state" where
  "set_flow_message TotpFlow m st = st\<lparr>totpError := Some m\<rparr>"
| "set_flow_message PasskeyFlow m st = st\<lparr>message := Some m\<rparr>"
| "set_flow_message PasswordFlow m st = st\<lparr>message := Some m\<rparr>"

text \<open>
  What an operation owes when it ran from \<open>st\<close> to \<open>st'\<close> and settled as \<open>r\<close>: it
  returns; the trace only grows; without a request the snapshot stays; a local rejection
  only writes its message; when the first request is answered by an error \<open>e\<close>, that
  request is the only one, the snapshot stays and the text of \<open>e\<close> is shown in the
  sub-flow of the operation; and a snapshot that changed is the answer to one of the
  requests of the operation.
\<close>

definition failure_contract ::
  "cs_env \<Rightarrow> cs_op \<Rightarrow> cs_state \<Rightarrow> error + unit \<Rightarrow> cs_state \<Rightarrow> bool" where
  "failure_contract env op st r st' =
     (r = Inr () \<and>
      take (length (sent st)) (sent st') = sent st \<and>
      (sent st' = sent st \<longrightarrow> cu_status st' = cu_status st) \<and>
      (\<forall>k. local_rejection op st = Some k \<longrightarrow>
           st' = set_flow_message (flow_of op) (msg env k) st) \<and>
      (\<forall>e. length (sent st) < length (sent st') \<and>
           server env (take (Suc (length (sent st))) (sent st')) = Inl e \<longrightarrow>
           length (sent st') = Suc (length (sent st)) \<and> cu_status st' = cu_status st \<and>
           flow_message (flow_of op) st' = Some (failure_text env op e) \<and> \<not> loading st') \<and>
      (cu_status st' \<noteq> cu_status st \<longrightarrow>
         (\<exists>k. length (sent st) < k \<and> k \<le> length (sent st') \<and>
              server env (take k (sent st')) = Inr (cu_status st'))))"


section \<open>Example inputs\<close>

text \<open>A transport that answers every request with the same response.\<close>

definition reply :: "http_response \<Rightarrow> fetch" where
  "reply r = (\<lambda>req. Inr r)"

definition session_reply :: "nat \<Rightarrow> string option \<Rightarrow> string \<Rightarrow> auth_state \<Rightarrow> http_response" where
  "session_reply code sid txt s =
     \<lparr>http_status = code,
      headers_get = (\<lambda>h. if h = AUTH_SESSION_HEADER then sid else None),
      text_body = Inr txt,
      json_body = Inr \<lparr>state = s\<rparr>\<rparr>"

text \<open>A failure response: its body is no JSON document.\<close>

definition failure_reply :: "nat \<Rightarrow> string option \<Rightarrow> string \<Rightarrow> http_response" where
  "failure_reply code sid txt =
     \<lparr>http_status = code,
      headers_get = (\<lambda>h. if h = AUTH_SESSION_HEADER then sid else None),
      text_body = Inr txt,
      json_body = Inl (Error ''Unexpected token'')\<rparr>"

text \<open>A signed-in session: module state, profile and provider states.\<close>

definition store0 :: api_state where
  "store0 = \<lparr>token = Some ''tok-1'', authSessionId = Some ''sess-1'', wire = []\<rparr>"

definition alice :: user_profile where
  "alice = \<lparr>name = ''alice'', displayName = ''Alice'', memberOf = [''idm_all_persons@example.com'']\<rparr>"

definition auth0 :: auth_ctx where
  "auth0 = \<lparr>api = store0, status = Authenticated, user = Some alice\<rparr>"

definition access0 :: access_ctx where
  "access0 =
     \<lparr>api = store0, status = Authenticated, user = Some alice,
      uat = None, now = 1700000000000, reauthOpen = False, reauthAllowed = [],
      reauthMessage = None, reauthLoading = False, reauthTotp = [], reauthPassword = []\<rparr>"

text \<open>String parsers that read nothing.\<close>

definition no_parse :: str_parser where
  "no_parse = (\<lambda>s. None)"

text \<open>
  A snapshot with MFA required, a component state with a password typed in, and one with
  a TOTP enrollment under way.
\<close>

definition status0 :: custatus where
  "status0 = \<lparr>primary = None, passkeys = [], warnings = [''MfaRequired''], can_commit = False,
              mfaregstate = MfaNone\<rparr>"

definition cs0 :: cs_state where
  "cs0 =
     \<lparr>cu_status = status0, loading = False, message = None,
      password = ''Abc123!!'', passwordConfirm = ''Abc123!!'', showPasswordForm = True,
      passkeyLabel = [], passkeyLabelOpen = False, pendingPasskey = None,
      totpPayload = None, totpQr = None, totpLabel = [], totpCode = [],
      totpError = None, totpModalOpen = False, totpSha1Warning = False,
      passwordNotice = None, totpCancelled = False, sent = []\<rparr>"

definition cs_totp :: cs_state where
  "cs_totp =
     cs0\<lparr>totpPayload := Some \<lparr>uri = ''otpauth://totp/alice'', secret = ''JBSWY3DP''\<rparr>,
         totpQr := Some ''data:image/png;base64,AAAA'', totpLabel := ''phone'',
         totpCode := ''123456'', totpModalOpen := True\<rparr>"

text \<open>
  Answers of the server: the status after \<open>totpgenerate\<close> with MFA still required, and
  the status that asks for the code again.
\<close>

definition status_totp :: custatus where
  "status_totp = status0\<lparr>mfaregstate := MfaTotpCheck ''JBSWY3DP''\<rparr>"

definition status_try_again :: custatus where
  "status_try_again = status0\<lparr>mfaregstate := MfaTotpTryAgain\<rparr>"

text \<open>
  A server that answers every intent with the status \<open>s\<close>, one that rejects every intent,
  and collaborators around a server.
\<close>

definition answer_all :: "custatus \<Rightarrow> cu_intent list \<Rightarrow> error + custatus" where
  "answer_all s = (\<lambda>trace. Inr s)"

definition reject_all :: "error \<Rightarrow> cu_intent list \<Rightarrow> error + custatus" where
  "reject_all e = (\<lambda>trace. Inl e)"

definition env_of :: "(cu_intent list \<Rightarrow> error + custatus) \<Rightarrow> cs_env" where
  "env_of srv =
     \<lparr>server = srv,
      msg = (\<lambda>k. ''profile.'' @ k),
      msg_name = (\<lambda>k n. ''profile.'' @ k @ '': '' @ n),
      performPasskeyCreation = (\<lambda>c. Inr (''registration for '' @ c)),
      buildTotpPayload = (\<lambda>s. Inr \<lparr>uri = ''otpauth://totp/'' @ s, secret = s\<rparr>),
      formatPasswordQualityError = (\<lambda>m. None),
      number_of = (\<lambda>s. if s = ''123456'' then Some 123456 else None)\<rparr>"


section \<open>Properties of the auth negotiation\<close>

lemma reauthBegin_finish_eq: "reauthBegin_finish = authRequest_finish"
  by (rule ext)+ (simp add: reauthBegin_finish_def authRequest_finish_def)

lemma authRequest_finish_wire: "wire (snd (authRequest_finish x s)) = wire s"
  by (auto simp: authRequest_finish_def handleAuthResponse_def tokenStore_set_def Let_def
      split: sum.splits auth_state.splits)

text \<open>
  Either step function hands one request to \<open>fetch\<close>, the last one on the wire, and
  continues with the answer from a state with the same credential and handle.
\<close>

lemma authRequest_sent:
  assumes a: "authRequest fetch payload st = (res, st')"
  shows "\<exists>s. token s = token st \<and> authSessionId s = authSessionId st \<and>
         authRequest_finish (fetch (last (wire st'))) s = (res, st')"
proof -
  obtain req s where rs: "authRequest_start payload st = (req, s)" by force
  from rs have s: "token s = token st" "authSessionId s = authSessionId st" "last (wire s) = req"
    by (auto simp: authRequest_start_def Let_def)
  from a rs have f: "authRequest_finish (fetch req) s = (res, st')"
    by (simp add: authRequest_def)
  then have "wire st' = wire s" using authRequest_finish_wire[of "fetch req" s] by simp
  with s f show ?thesis by auto
qed

lemma reauthBegin_sent:
  assumes a: "reauthBegin fetch issue st = (res, st')"
  shows "\<exists>s. token s = token st \<and> authSessionId s = authSessionId st \<and>
         authRequest_finish (fetch (last (wire st'))) s = (res, st')"
proof -
  obtain req s where rs: "reauthBegin_start issue st = (req, s)" by force
  from rs have s: "token s = token st" "authSessionId s = authSessionId st" "last (wire s) = req"
    by (auto simp: reauthBegin_start_def Let_def)
  from a rs have f: "authRequest_finish (fetch req) s = (res, st')"
    by (simp add: reauthBegin_def reauthBegin_finish_eq)
  then have "wire st' = wire s" using authRequest_finish_wire[of "fetch req" s] by simp
  with s f show ?thesis by auto
qed

lemma authRequest_finish_ok:
  assumes "authRequest_finish (Inr r) s = (res, st')" and "ok r" and "json_body r = Inr j"
  shows "res = Inr j \<and>
     (case state j of
        Success c \<Rightarrow> token st' = Some c \<and> authSessionId st' = None
      | Denied d \<Rightarrow> authSessionId st' = None \<and> token st' = token s
      | Continue ms \<Rightarrow> token st' = token s \<and>
           authSessionId st' =
             (if truthy (sessionFromHeader r) then sessionFromHeader r else authSessionId s))"
  using assms
  by (auto simp: authRequest_finish_def handleAuthResponse_def tokenStore_set_def Let_def
      split: auth_state.splits if_splits)

lemma authRequest_finish_failed:
  assumes "authRequest_finish (Inr r) s = (res, st')" and "\<not> ok r" and "text_body r = Inr t"
  shows "res = Inl (Error (''Request failed ('' @ show_nat (http_status r) @ ''): '' @ t)) \<and>
     token st' = token s \<and>
     authSessionId st' =
       (if truthy (sessionFromHeader r) then sessionFromHeader r else authSessionId s)"
  using assms
  by (auto simp: authRequest_finish_def request_failed_def Let_def split: if_splits)

lemmas api_eval =
  authRequest_def authRequest_start_def authRequest_finish_def
  reauthBegin_def reauthBegin_start_def reauthBegin_finish_def
  logout_def logout_start_def logout_finish_def clearAuthToken_def tokenStore_clear_def
  bearer_def tokenStore_get_def tokenStore_set_def authHeaders_def sessionFromHeader_def ok_def
  handleAuthResponse_def AUTH_SESSION_HEADER_def request_failed_def show_nat.simps
  digit_char_def Let_def reply_def session_reply_def store0_def

text \<open>
  Claim C1. A step of the auth or reauth negotiation whose request is answered by a 2xx
  response with body \<open>j\<close> returns \<open>j\<close>, and: on \<open>Success c\<close> the stored credential is \<open>c\<close>
  and the handle is null; on \<open>Denied\<close> the handle is null and the credential is the one
  stored before; on \<open>Continue\<close> the credential is unchanged and the handle is the
  session header of the response when that is present and non-empty, and the handle
  stored before otherwise.
\<close>

theorem auth_step_outcome:
  assumes "authRequest fetch payload st = (res, st') \<or> reauthBegin fetch issue st = (res, st')"
      and "fetch (last (wire st')) = Inr r" and "ok r" and "json_body r = Inr j"
  shows "res = Inr j \<and>
     (case state j of
        Success c \<Rightarrow> token st' = Some c \<and> authSessionId st' = None
      | Denied d \<Rightarrow> authSessionId st' = None \<and> token st' = token st
      | Continue ms \<Rightarrow> token st' = token st \<and>
           authSessionId st' =
             (if truthy (sessionFromHeader r) then sessionFromHeader r else authSessionId st))"
proof -
  from assms(1) obtain s where s: "token s = token st" "authSessionId s = authSessionId st"
      "authRequest_finish (fetch (last (wire st'))) s = (res, st')"
    using authRequest_sent reauthBegin_sent by blast
  from s(3) assms(2) have "authRequest_finish (Inr r) s = (res, st')" by simp
  from authRequest_finish_ok[OF this assms(3,4)] show ?thesis by (simp only: s(1,2))
qed

text \<open>
  The scenario of the specification: a wrong password is answered by \<open>Denied\<close>; the
  handle is cleared and the stored credential \<open>tok-1\<close> stays.
\<close>

theorem auth_step_outcome_witness:
  "authRequest (reply (session_reply 200 (Some ''sess-2'') [] (Denied ''bad password'')))
       (Cred (CredPassword ''pw'')) store0
     = (Inr \<lparr>state = Denied ''bad password''\<rparr>,
        \<lparr>token = Some ''tok-1'', authSessionId = None,
         wire = [\<lparr>url = ''/v1/auth'', http_method = ''POST'', content_type = Some ''application/json'',
                  authorization = Some ''Bearer tok-1'', session_header = Some ''sess-1'',
                  body = StepBody (Cred (CredPassword ''pw''))\<rparr>]\<rparr>)
   \<and> ok (session_reply 200 (Some ''sess-2'') [] (Denied ''bad password''))
   \<and> json_body (session_reply 200 (Some ''sess-2'') [] (Denied ''bad password''))
       = Inr \<lparr>state = Denied ''bad password''\<rparr>
   \<and> token store0 = Some ''tok-1''"
proof -
  let ?r = "session_reply 200 (Some ''sess-2'') [] (Denied ''bad password'')"
  let ?st' = "\<lparr>token = Some ''tok-1'', authSessionId = None,
         wire = [\<lparr>url = ''/v1/auth'', http_method = ''POST'', content_type = Some ''application/json'',
                  authorization = Some ''Bearer tok-1'', session_header = Some ''sess-1'',
                  body = StepBody (Cred (CredPassword ''pw''))\<rparr>]\<rparr>"
  have run: "authRequest (reply ?r) (Cred (CredPassword ''pw'')) store0
      = (Inr \<lparr>state = Denied ''bad password''\<rparr>, ?st')"
    by (simp add: api_eval)
  have answered: "reply ?r (last (wire ?st')) = Inr ?r" by (simp add: reply_def)
  have okr: "ok ?r" by (simp add: ok_def session_reply_def)
  have js: "json_body ?r = Inr \<lparr>state = Denied ''bad password''\<rparr>"
    by (simp add: session_reply_def)
  from auth_step_outcome[OF disjI1[OF run] answered okr js]
  have "token ?st' = token store0" by simp
  then have "token store0 = Some ''tok-1''" by simp
  with run okr js show ?thesis by simp
qed

text \<open>
  Claim C3 (as amended). A step of the auth or reauth negotiation whose request is
  answered by a non-2xx response fails with the error \<open>Request failed (status): body\<close>
  and leaves the stored credential unchanged. The handle is the one stored before when
  the response has no session header or an empty one; a session header that is present
  replaces it, since the header is read before the status is tested.
\<close>

theorem failed_step_effect:
  assumes "authRequest fetch payload st = (res, st') \<or> reauthBegin fetch issue st = (res, st')"
      and "fetch (last (wire st')) = Inr r" and "\<not> ok r" and "text_body r = Inr t"
  shows "res = Inl (Error (''Request failed ('' @ show_nat (http_status r) @ ''): '' @ t)) \<and>
     token st' = token st \<and>
     authSessionId st' =
       (if truthy (sessionFromHeader r) then sessionFromHeader r else authSessionId st)"
proof -
  from assms(1) obtain s where s: "token s = token st" "authSessionId s = authSessionId st"
      "authRequest_finish (fetch (last (wire st'))) s = (res, st')"
    using authRequest_sent reauthBegin_sent by blast
  from s(3) assms(2) have "authRequest_finish (Inr r) s = (res, st')" by simp
  from authRequest_finish_failed[OF this assms(3,4)] show ?thesis by (simp only: s(1,2))
qed

theorem failed_step_effect_witness:
  "authRequest (reply (failure_reply 401 None ''unauthorized'')) (Cred (CredTotp 123456)) store0
     = (Inl (Error ''Request failed (401): unauthorized''),
        \<lparr>token = Some ''tok-1'', authSessionId = Some ''sess-1'',
         wire = [\<lparr>url = ''/v1/auth'', http_method = ''POST'', content_type = Some ''application/json'',
                  authorization = Some ''Bearer tok-1'', session_header = Some ''sess-1'',
                  body = StepBody (Cred (CredTotp 123456))\<rparr>]\<rparr>)
   \<and> \<not> ok (failure_reply 401 None ''unauthorized'')
   \<and> text_body (failure_reply 401 None ''unauthorized'') = Inr ''unauthorized''
   \<and> authSessionId store0 = Some ''sess-1'' \<and> token store0 = Some ''tok-1''"
proof -
  let ?r = "failure_reply 401 None ''unauthorized''"
  let ?st' = "\<lparr>token = Some ''tok-1'', authSessionId = Some ''sess-1'',
         wire = [\<lparr>url = ''/v1/auth'', http_method = ''POST'', content_type = Some ''application/json'',
                  authorization = Some ''Bearer tok-1'', session_header = Some ''sess-1'',
                  body = StepBody (Cred (CredTotp 123456))\<rparr>]\<rparr>"
  have run: "authRequest (reply ?r) (Cred (CredTotp 123456)) store0
      = (Inl (Error ''Request failed (401): unauthorized''), ?st')"
    by (simp add: api_eval failure_reply_def)
  have answered: "reply ?r (last (wire ?st')) = Inr ?r" by (simp add: reply_def)
  have nok: "\<not> ok ?r" by (simp add: ok_def failure_reply_def)
  have tb: "text_body ?r = Inr ''unauthorized''" by (simp add: failure_reply_def)
  from failed_step_effect[OF disjI1[OF run] answered nok tb]
  have "authSessionId ?st' = authSessionId store0 \<and> token ?st' = token store0"
    by (simp add: sessionFromHeader_def failure_reply_def)
  then have "authSessionId store0 = Some ''sess-1'' \<and> token store0 = Some ''tok-1''" by simp
  with run nok tb show ?thesis by simp
qed

text \<open>
  Against C3 as stated: a 500 response that carries a session header replaces the handle
  \<open>sess-1\<close> by \<open>sess-2\<close>.
\<close>

theorem failed_step_replaces_handle:
  "reauthBegin (reply (failure_reply 500 (Some ''sess-2'') ''boom'')) IssueToken store0
     = (Inl (Error ''Request failed (500): boom''),
        \<lparr>token = Some ''tok-1'', authSessionId = Some ''sess-2'',
         wire = [\<lparr>url = ''/v1/reauth'', http_method = ''POST'', content_type = Some ''application/json'',
                  authorization = Some ''Bearer tok-1'', session_header = Some ''sess-1'',
                  body = IssueBody IssueToken\<rparr>]\<rparr>)
   \<and> authSessionId store0 = Some ''sess-1''
   \<and> \<not> ok (failure_reply 500 (Some ''sess-2'') ''boom'')"
  by (simp add: api_eval failure_reply_def)


section \<open>Properties of sign-out\<close>

lemma signOut_result: "fst (signOut fetch st) = fst (logout fetch (api st))"
  by (simp add: signOut_def split: prod.splits)

lemma logout_result:
  "fst (logout fetch a) =
     (case fetch (fst (logout_start a)) of
        Inl e \<Rightarrow> Inl e
      | Inr r \<Rightarrow> if \<not> ok r then (case text_body r of Inl e \<Rightarrow> Inl e
                    | Inr t \<Rightarrow> Inl (request_failed (http_status r) t)) else Inr ())"
  by (simp add: logout_def logout_finish_def split: prod.splits sum.splits)

text \<open>
  Claim C4 (as amended). \<open>signOut\<close> clears the credential, the handle and the user
  profile and sets the status to unauthenticated on every outcome of the logout call.
  It settles as the logout call does: a rejection of \<open>fetch\<close> and the error of a non-2xx
  response are thrown out of \<open>signOut\<close> to its caller, after the state is cleared.
\<close>

theorem signOut_clears_and_rethrows:
  "token (api (snd (signOut fetch st))) = None \<and>
   authSessionId (api (snd (signOut fetch st))) = None \<and>
   user (snd (signOut fetch st)) = None \<and>
   status (snd (signOut fetch st)) = Unauthenticated \<and>
   fst (signOut fetch st) = fst (logout fetch (api st)) \<and>
   (fetch (fst (logout_start (api st))) = Inl e \<longrightarrow> fst (signOut fetch st) = Inl e) \<and>
   (fetch (fst (logout_start (api st))) = Inr r \<longrightarrow> \<not> ok r \<longrightarrow> text_body r = Inr t \<longrightarrow>
      fst (signOut fetch st) = Inl (Error (''Request failed ('' @ show_nat (http_status r) @ ''): '' @ t))) \<and>
   (fetch (fst (logout_start (api st))) = Inr r \<longrightarrow> ok r \<longrightarrow> fst (signOut fetch st) = Inr ())"
proof -
  have clear: "token (api (snd (signOut fetch st))) = None \<and>
   authSessionId (api (snd (signOut fetch st))) = None \<and>
   user (snd (signOut fetch st)) = None \<and>
   status (snd (signOut fetch st)) = Unauthenticated"
    by (simp add: signOut_def clearAuthToken_def tokenStore_clear_def split: prod.splits)
  have res: "fst (signOut fetch st) = fst (logout fetch (api st))"
    by (rule signOut_result)
  show ?thesis
    using clear by (simp add: res logout_result request_failed_def)
qed

theorem signOut_clears_and_rethrows_witness:
  "signOut (reply (failure_reply 503 None ''unavailable'')) auth0
     = (Inl (Error ''Request failed (503): unavailable''),
        \<lparr>api = \<lparr>token = None, authSessionId = None,
                wire = [\<lparr>url = ''/v1/logout'', http_method = ''GET'', content_type = None,
                  authorization = Some ''Bearer tok-1'', session_header = Some ''sess-1'',
                  body = NoBody\<rparr>]\<rparr>,
          status = Unauthenticated, user = None\<rparr>)
   \<and> \<not> ok (failure_reply 503 None ''unavailable'')
   \<and> fst (signOut (reply (failure_reply 503 None ''unavailable'')) auth0)
       = Inl (Error ''Request failed (503): unavailable'')"
proof -
  let ?r = "failure_reply 503 None ''unavailable''"
  have run: "signOut (reply ?r) auth0
     = (Inl (Error ''Request failed (503): unavailable''),
        \<lparr>api = \<lparr>token = None, authSessionId = None,
                wire = [\<lparr>url = ''/v1/logout'', http_method = ''GET'', content_type = None,
                  authorization = Some ''Bearer tok-1'', session_header = Some ''sess-1'',
                  body = NoBody\<rparr>]\<rparr>,
          status = Unauthenticated, user = None\<rparr>)"
    by (simp add: signOut_def auth0_def api_eval failure_reply_def)
  have answered: "reply ?r (fst (logout_start (api auth0))) = Inr ?r" by (simp add: reply_def)
  have nok: "\<not> ok ?r" by (simp add: ok_def failure_reply_def)
  have tb: "text_body ?r = Inr ''unavailable''" by (simp add: failure_reply_def)
  from signOut_clears_and_rethrows[of "reply ?r" auth0 _ ?r "''unavailable''"] answered nok tb
  have "fst (signOut (reply ?r) auth0)
      = Inl (Error (''Request failed ('' @ show_nat (http_status ?r) @ ''): '' @ ''unavailable''))"
    by blast
  then have "fst (signOut (reply ?r) auth0) = Inl (Error ''Request failed (503): unavailable'')"
    by (simp add: failure_reply_def show_nat.simps digit_char_def)
  with run nok show ?thesis by simp
qed

text \<open>
  Against C4 as stated: with a 500 answer to the logout request, \<open>signOut\<close> does not
  return; it throws the error of the logout call.
\<close>

theorem signOut_surfaces_failure:
  "fst (signOut (reply (failure_reply 500 None ''boom'')) auth0) = Inl (Error ''Request failed (500): boom'')"
  by (simp add: signOut_def auth0_def api_eval failure_reply_def)

section \<open>Properties of the access evaluation\<close>

subsection \<open>Group permissions\<close>

lemma split_hd: "\<exists>ps. split sep s = takeWhile (\<lambda>c. c \<noteq> sep) s # ps"
  by (induction s) (auto split: list.splits)

lemma normalizeGroupName_eq: "normalizeGroupName g = toLowerCase (before_at g)"
proof -
  obtain ps where "split (CHR ''@'') g = takeWhile (\<lambda>c. c \<noteq> CHR ''@'') g # ps"
    using split_hd by blast
  then show ?thesis by (simp add: normalizeGroupName_def before_at_def)
qed

lemma toLowerChar_at: "(toLowerChar c = CHR ''@'') = (c = CHR ''@'')"
  by (auto simp: toLowerChar_def)

lemma normalize_lower: "normalizeGroupName g = before_at (toLowerCase g)"
  by (simp add: normalizeGroupName_eq before_at_def toLowerCase_def takeWhile_map comp_def toLowerChar_at)

lemma adds_domain_iff: "adds_domain g g' = (\<exists>d. g' = g @ CHR ''@'' # d)"
proof
  assume a: "adds_domain g g'"
  then have "g' = g @ drop (length g) g'"
    by (metis adds_domain_def append_take_drop_id)
  moreover from a obtain d where "drop (length g) g' = CHR ''@'' # d"
    by (cases "drop (length g) g'") (auto simp: adds_domain_def)
  ultimately show "\<exists>d. g' = g @ CHR ''@'' # d" by metis
next
  assume "\<exists>d. g' = g @ CHR ''@'' # d"
  then show "adds_domain g g'" by (auto simp: adds_domain_def)
qed

lemma normalize_suffix: "normalizeGroupName (g @ CHR ''@'' # d) = normalizeGroupName g"
  by (simp add: normalizeGroupName_eq before_at_def takeWhile_tail)

lemma group_variant_normalize: "group_variant g g' \<Longrightarrow> normalizeGroupName g = normalizeGroupName g'"
  unfolding group_variant_def adds_domain_iff
  by (auto simp: normalize_suffix) (simp add: normalize_lower)

lemma hasAnyGroup_iff:
  "hasAnyGroup m gs = (\<exists>g\<in>set m. \<exists>a\<in>set gs. toLowerCase (before_at g) = toLowerCase a)"
  by (auto simp: hasAnyGroup_def list_ex_iff normalizeGroupName_eq Let_def)

lemma hasAnyGroup_inter:
  "hasAnyGroup m gs = (normalizeGroupName ` set m \<inter> toLowerCase ` set gs \<noteq> {})"
  by (auto simp: hasAnyGroup_def list_ex_iff Let_def)

lemma hasAnyGroup_cong:
  assumes "map normalizeGroupName m = map normalizeGroupName m'"
  shows "hasAnyGroup m gs = hasAnyGroup m' gs"
proof -
  from assms have "normalizeGroupName ` set m = normalizeGroupName ` set m'"
    by (metis set_map)
  then show ?thesis by (simp add: hasAnyGroup_inter)
qed

lemma variants_normalize:
  "list_all2 group_variant m m' \<Longrightarrow> map normalizeGroupName m = map normalizeGroupName m'"
  by (induction rule: list_all2_induct) (auto dest: group_variant_normalize)

text \<open>
  Claim C9. \<open>permissions\<close> gives the same three flags for two group lists whose entries
  differ, position by position, in letter case only or by an added or removed \<open>@domain\<close>
  suffix; and each flag is true exactly when some entry of the list, read up to its first
  \<open>@\<close> and compared without regard to case, is a name of that capability's allow-list.
\<close>

theorem permissions_invariant:
  "(list_all2 group_variant m m' \<longrightarrow> permissions m = permissions m') \<and>
   nameAllowed (permissions m) =
     (\<exists>g\<in>set m. \<exists>a\<in>set SELF_NAME_WRITE_GROUPS. toLowerCase (before_at g) = toLowerCase a) \<and>
   emailAllowed (permissions m) =
     (\<exists>g\<in>set m. \<exists>a\<in>set SELF_MAIL_WRITE_GROUPS. toLowerCase (before_at g) = toLowerCase a) \<and>
   selfWriteAllowed (permissions m) =
     (\<exists>g\<in>set m. \<exists>a\<in>set SELF_WRITE_GROUPS. toLowerCase (before_at g) = toLowerCase a)"
proof -
  have "permissions m = permissions m'" if "list_all2 group_variant m m'"
    using hasAnyGroup_cong[OF variants_normalize[OF that]] by (simp add: permissions_def)
  then show ?thesis
    by (simp add: permissions_def hasAnyGroup_iff)
qed

theorem permissions_invariant_witness:
  "list_all2 group_variant [''IDM_ALL_PERSONS'', ''staff@corp''] [''idm_all_persons'', ''staff''] \<and>
   permissions [''IDM_ALL_PERSONS'', ''staff@corp''] = permissions [''idm_all_persons'', ''staff''] \<and>
   permissions [''idm_all_persons'', ''staff'']
     = \<lparr>nameAllowed = True, emailAllowed = False, selfWriteAllowed = True\<rparr>"
proof -
  have v: "list_all2 group_variant [''IDM_ALL_PERSONS'', ''staff@corp''] [''idm_all_persons'', ''staff'']"
    by (simp add: group_variant_def adds_domain_def toLowerCase_def toLowerChar_def)
  from permissions_invariant[of "[''IDM_ALL_PERSONS'', ''staff@corp'']" "[''idm_all_persons'', ''staff'']"] v
  have e: "permissions [''IDM_ALL_PERSONS'', ''staff@corp''] = permissions [''idm_all_persons'', ''staff'']"
    by blast
  have p: "permissions [''idm_all_persons'', ''staff'']
     = \<lparr>nameAllowed = True, emailAllowed = False, selfWriteAllowed = True\<rparr>"
    by (simp add: permissions_def hasAnyGroup_def normalizeGroupName_def toLowerCase_def
        toLowerChar_def SELF_NAME_WRITE_GROUPS_def SELF_MAIL_WRITE_GROUPS_def SELF_WRITE_GROUPS_def)
  from v e p show ?thesis by simp
qed

subsection \<open>The privilege window\<close>

lemma rwExpiry_uat_rw: "rwExpiry dp nm (Some (uat_rw x)) = Inr (parseUatExpiry dp nm x)"
  by (simp add: rwExpiry_def uat_rw_def)

lemma canEdit_uat_rw:
  "canEdit dp nm (Some (uat_rw x)) clock =
     Inr (case parseUatExpiry dp nm x of None \<Rightarrow> False | Some e \<Rightarrow> e \<noteq> 0 \<and> 60000 < e - clock)"
  by (auto simp: canEdit_def isReadwrite_def uat_rw_def Let_def split: option.splits)

lemma ceiling_minutes_pos: "0 < d \<Longrightarrow> 1 \<le> \<lceil>real_of_int d / 60000\<rceil>"
  by (simp add: ceiling_le_iff less_ceiling_iff)

lemma unlockedMinutes_Some:
  "unlockedMinutes (Some e) clock =
     (if e = 0 \<or> e - clock \<le> 0 then None else Some \<lceil>real_of_int (e - clock) / 60000\<rceil>)"
  using ceiling_minutes_pos[of "e - clock"] by (auto simp: unlockedMinutes_def max_def)

lemma unlockedMinutes_mono:
  assumes "clock \<le> later"
  shows "minutes_or_zero (unlockedMinutes rw later) \<le> minutes_or_zero (unlockedMinutes rw clock)"
proof (cases rw)
  case None
  then show ?thesis by (simp add: unlockedMinutes_def)
next
  case (Some e)
  have c: "\<lceil>real_of_int (e - later) / 60000\<rceil> \<le> \<lceil>real_of_int (e - clock) / 60000\<rceil>"
    using assms by (intro ceiling_mono) (simp add: divide_right_mono)
  show ?thesis using Some assms c by (auto simp: unlockedMinutes_def)
qed

text \<open>
  Claim C2 (as amended). For a token whose purpose is the readwrite variant with expiry
  \<open>x\<close>, read as \<open>e\<close> milliseconds (a number below \<open>10^12\<close> is seconds, any other number
  is milliseconds, a string is what \<open>Date.parse\<close> makes of it): \<open>unlockedMinutes\<close> is null
  exactly when \<open>e\<close> is \<open>0\<close> or \<open>e - now \<le> 0\<close>, and is otherwise the ceiling of
  \<open>(e - now) / 60000\<close>, which is at least \<open>1\<close>; it does not increase as \<open>now\<close> grows.
  The margin of 60 seconds is that of \<open>canEdit\<close> alone, which is true exactly when \<open>e\<close> is
  not \<open>0\<close> and \<open>e - now > 60000\<close>.
\<close>

theorem privilege_window:
  "rwExpiry dp nm (Some (uat_rw x)) = Inr (parseUatExpiry dp nm x) \<and>
   parseUatExpiry dp nm (Num n) = Some (if n < 1000000000000 then n * 1000 else n) \<and>
   (dp s = Some p \<longrightarrow> parseUatExpiry dp nm (Str s) = Some p) \<and>
   (parseUatExpiry dp nm x = Some e \<longrightarrow>
      unlockedMinutes_of dp nm (Some (uat_rw x)) clock =
        Inr (if e = 0 \<or> e - clock \<le> 0 then None
             else Some \<lceil>real_of_int (e - clock) / 60000\<rceil>) \<and>
      (e \<noteq> 0 \<and> 0 < e - clock \<longrightarrow> 1 \<le> \<lceil>real_of_int (e - clock) / 60000\<rceil>) \<and>
      canEdit dp nm (Some (uat_rw x)) clock = Inr (e \<noteq> 0 \<and> 60000 < e - clock) \<and>
      (clock \<le> later \<longrightarrow>
         minutes_or_zero (unlockedMinutes (Some e) later)
           \<le> minutes_or_zero (unlockedMinutes (Some e) clock)))"
proof -
  have a: "rwExpiry dp nm (Some (uat_rw x)) = Inr (parseUatExpiry dp nm x)"
    by (rule rwExpiry_uat_rw)
  have b: "parseUatExpiry dp nm (Num n) = Some (if n < 1000000000000 then n * 1000 else n)"
    by simp
  have c: "dp s = Some p \<longrightarrow> parseUatExpiry dp nm (Str s) = Some p"
    by simp
  have d: "unlockedMinutes_of dp nm (Some (uat_rw x)) clock =
        Inr (if e = 0 \<or> e - clock \<le> 0 then None
             else Some \<lceil>real_of_int (e - clock) / 60000\<rceil>)"
    if "parseUatExpiry dp nm x = Some e"
    using that by (simp only: unlockedMinutes_of_def a unlockedMinutes_Some sum.case)
  have f: "canEdit dp nm (Some (uat_rw x)) clock = Inr (e \<noteq> 0 \<and> 60000 < e - clock)"
    if "parseUatExpiry dp nm x = Some e"
    using that by (simp add: canEdit_uat_rw)
  have g: "e \<noteq> 0 \<and> 0 < e - clock \<longrightarrow> 1 \<le> \<lceil>real_of_int (e - clock) / 60000\<rceil>"
    using ceiling_minutes_pos[of "e - clock"] by blast
  have h: "clock \<le> later \<longrightarrow>
         minutes_or_zero (unlockedMinutes (Some e) later)
           \<le> minutes_or_zero (unlockedMinutes (Some e) clock)"
    using unlockedMinutes_mono[of clock later "Some e"] by blast
  from a b c d f g h show ?thesis by blast
qed

text \<open>
  An expiry given in seconds, ten minutes ahead: ten minutes are left and editing is
  allowed; thirty seconds before the expiry no more minutes are left than before.
\<close>

theorem privilege_window_witness:
  "parseUatExpiry no_parse no_parse (Num 1700000600) = Some 1700000600000 \<and>
   unlockedMinutes_of no_parse no_parse (Some (uat_rw (Num 1700000600))) 1700000000000 = Inr (Some 10) \<and>
   canEdit no_parse no_parse (Some (uat_rw (Num 1700000600))) 1700000000000 = Inr True \<and>
   (1700000000000 :: int) \<le> 1700000570000 \<and>
   minutes_or_zero (unlockedMinutes (Some 1700000600000) 1700000570000)
     \<le> minutes_or_zero (unlockedMinutes (Some 1700000600000) 1700000000000)"
proof -
  have p: "parseUatExpiry no_parse no_parse (Num 1700000600) = Some 1700000600000" by simp
  have le: "(1700000000000 :: int) \<le> 1700000570000" by simp
  from privilege_window[of no_parse no_parse "Num 1700000600" _ _ _ 1700000600000 1700000000000 1700000570000] p le
  have "unlockedMinutes_of no_parse no_parse (Some (uat_rw (Num 1700000600))) 1700000000000
          = Inr (Some \<lceil>real_of_int (1700000600000 - 1700000000000) / 60000\<rceil>)
      \<and> canEdit no_parse no_parse (Some (uat_rw (Num 1700000600))) 1700000000000 = Inr True
      \<and> minutes_or_zero (unlockedMinutes (Some 1700000600000) 1700000570000)
          \<le> minutes_or_zero (unlockedMinutes (Some 1700000600000) 1700000000000)"
    by simp
  then show ?thesis using p le by simp
qed

text \<open>
  Against C2 as stated: 45 seconds before the expiry \<open>canEdit\<close> is false, and
  \<open>unlockedMinutes\<close> is \<open>1\<close>, not null.
\<close>

theorem window_inside_margin:
  "canEdit no_parse no_parse (Some (uat_rw (Num 1700000045000))) 1700000000000 = Inr False \<and>
   unlockedMinutes_of no_parse no_parse (Some (uat_rw (Num 1700000045000))) 1700000000000 = Inr (Some 1)"
  by (simp add: canEdit_def isReadwrite_def uat_rw_def unlockedMinutes_of_def rwExpiry_def
      unlockedMinutes_def)

subsection \<open>Faults of the expiry derivation\<close>

lemma rwExpiry_faults:
  "(\<exists>e. rwExpiry dp nm (Some u) = Inl e) = (typeof (purpose u) = ''object'' \<and> \<not> readwrite_variant (purpose u))"
proof (cases "purpose u")
  case (Obj kvs)
  show ?thesis
  proof (cases "map_of kvs ''readwrite''")
    case None
    with Obj show ?thesis by (simp add: rwExpiry_def)
  next
    case (Some v)
    with Obj show ?thesis by (cases v) (simp_all add: rwExpiry_def)
  qed
qed (simp_all add: rwExpiry_def)

lemma isReadwrite_faults:
  "(\<exists>e. isReadwrite dp nm p clock = Inl e) = (has_readwrite p \<and> \<not> readwrite_variant p)"
proof (cases p)
  case (Obj kvs)
  show ?thesis
  proof (cases "map_of kvs ''readwrite''")
    case None
    with Obj show ?thesis by (simp add: isReadwrite_def)
  next
    case (Some v)
    with Obj show ?thesis
      by (cases v) (auto simp: isReadwrite_def Let_def split: option.splits)
  qed
qed (simp_all add: isReadwrite_def)

text \<open>
  Claim C10 (as amended). For a purpose of type \<open>object\<close> the expiry derivation reads
  \<open>purpose.readwrite.expiry\<close> with no check before; it is free of faults exactly when every
  purpose of type \<open>object\<close> is a readwrite variant (an object, not \<open>null\<close>, whose
  \<open>readwrite\<close> member holds a value). \<open>isReadwrite\<close> answers \<open>false\<close> for \<open>null\<close>, for a
  purpose that is no object and for an object without a \<open>readwrite\<close> member; it is free of
  faults exactly when the \<open>readwrite\<close> member, if there is one, holds a value.
\<close>

theorem expiry_derivation_faults:
  "(typeof (purpose u) = ''object'' \<longrightarrow>
      rwExpiry dp nm (Some u) =
        (case js_get (purpose u) ''readwrite'' of
           Inl e \<Rightarrow> Inl e
         | Inr rw \<Rightarrow> (case js_get rw ''expiry'' of
                         Inl e \<Rightarrow> Inl e
                       | Inr x \<Rightarrow> Inr (parseUatExpiry dp nm x)))) \<and>
   ((\<forall>e. rwExpiry dp nm (Some u) \<noteq> Inl e) =
      (typeof (purpose u) = ''object'' \<longrightarrow> readwrite_variant (purpose u))) \<and>
   ((\<forall>e. isReadwrite dp nm p clock \<noteq> Inl e) = (has_readwrite p \<longrightarrow> readwrite_variant p)) \<and>
   (p = Null \<or> typeof p \<noteq> ''object'' \<or> \<not> has_readwrite p \<longrightarrow>
      isReadwrite dp nm p clock = Inr False)"
proof -
  have a: "typeof (purpose u) = ''object'' \<longrightarrow>
      rwExpiry dp nm (Some u) =
        (case js_get (purpose u) ''readwrite'' of
           Inl e \<Rightarrow> Inl e
         | Inr rw \<Rightarrow> (case js_get rw ''expiry'' of
                         Inl e \<Rightarrow> Inl e
                       | Inr x \<Rightarrow> Inr (parseUatExpiry dp nm x)))"
    by (simp add: rwExpiry_def)
  have b: "(\<forall>e. rwExpiry dp nm (Some u) \<noteq> Inl e) =
      (typeof (purpose u) = ''object'' \<longrightarrow> readwrite_variant (purpose u))"
    using rwExpiry_faults[of dp nm u] by blast
  have c: "(\<forall>e. isReadwrite dp nm p clock \<noteq> Inl e) = (has_readwrite p \<longrightarrow> readwrite_variant p)"
    using isReadwrite_faults[of dp nm p clock] by blast
  have d: "p = Null \<or> typeof p \<noteq> ''object'' \<or> \<not> has_readwrite p \<longrightarrow>
      isReadwrite dp nm p clock = Inr False"
    by (cases p) (auto simp: isReadwrite_def)
  from a b c d show ?thesis by blast
qed

text \<open>The purpose \<open>null\<close>: the derivation of the expiry faults, \<open>isReadwrite\<close> answers \<open>false\<close>.\<close>

theorem expiry_derivation_faults_witness:
  "typeof (purpose \<lparr>purpose = Null\<rparr>) = ''object'' \<and>
   rwExpiry no_parse no_parse (Some \<lparr>purpose = Null\<rparr>) = Inl type_error \<and>
   \<not> readwrite_variant Null \<and>
   isReadwrite no_parse no_parse Null 1700000000000 = Inr False"
proof -
  have t: "typeof (purpose \<lparr>purpose = Null\<rparr>) = ''object''" by simp
  have n: "\<not> readwrite_variant Null" by simp
  from expiry_derivation_faults[of "\<lparr>purpose = Null\<rparr>" no_parse no_parse Null 1700000000000] t
  have "rwExpiry no_parse no_parse (Some \<lparr>purpose = Null\<rparr>) = Inl type_error
      \<and> isReadwrite no_parse no_parse Null 1700000000000 = Inr False"
    by simp
  with t n show ?thesis by simp
qed

text \<open>
  Against C10 as stated: \<open>isReadwrite\<close> is not total on every purpose; an object whose
  \<open>readwrite\<close> member is \<open>null\<close> passes both guards and faults at \<open>.expiry\<close>.
\<close>

theorem isReadwrite_null_payload:
  "isReadwrite no_parse no_parse (Obj [(''readwrite'', Null)]) 1700000000000 = Inl type_error"
  by (simp add: isReadwrite_def)

subsection \<open>Requesting reauthentication\<close>

lemma beginReauth_start_opens:
  assumes "status snap = Authenticated" and "\<not> reauthLoading snap"
  shows "\<exists>req st1. beginReauth_start snap st = (Some req, st1) \<and>
           reauthOpen st1 \<and> reauthLoading st1 \<and> status st1 = status st \<and>
           reauth_requests st1 = reauth_requests st @ [req]"
  using assms
  by (simp add: beginReauth_start_def reauthBegin_start_def reauth_requests_def Let_def)

text \<open>
  Claim C8 (as amended). \<open>requestReauth\<close> does nothing when the render it was created in
  shows the flow open or in flight. On an authenticated state with the flow closed it
  begins one negotiation and leaves the flow open and in flight, so that a second call
  made after the next render does nothing: exactly one negotiation is begun.
\<close>

theorem requestReauth_once:
  "(reauthOpen snap \<or> reauthLoading snap \<longrightarrow> requestReauth snap st = (None, st)) \<and>
   (status st = Authenticated \<and> \<not> reauthOpen st \<and> \<not> reauthLoading st \<longrightarrow>
      (\<exists>req st1. requestReauth st st = (Some req, st1) \<and>
          reauthOpen st1 \<and> reauthLoading st1 \<and>
          reauth_requests st1 = reauth_requests st @ [req] \<and>
          requestReauth st1 st1 = (None, st1)))"
proof -
  have noop: "requestReauth snap' st' = (None, st')" if "reauthOpen snap' \<or> reauthLoading snap'"
    for snap' st' :: "'a access_ctx_scheme"
    using that by (simp add: requestReauth_def)
  have once: "\<exists>req st1. requestReauth st st = (Some req, st1) \<and>
          reauthOpen st1 \<and> reauthLoading st1 \<and>
          reauth_requests st1 = reauth_requests st @ [req] \<and>
          requestReauth st1 st1 = (None, st1)"
    if h: "status st = Authenticated \<and> \<not> reauthOpen st \<and> \<not> reauthLoading st"
  proof -
    from h obtain req st1 where s: "beginReauth_start st st = (Some req, st1)"
        "reauthOpen st1" "reauthLoading st1" "reauth_requests st1 = reauth_requests st @ [req]"
      using beginReauth_start_opens[of st st] by blast
    from h s(1) have "requestReauth st st = (Some req, st1)" by (simp add: requestReauth_def)
    with s noop[of st1 st1] show ?thesis by blast
  qed
  from noop[of snap st] once show ?thesis by blast
qed

lemmas reauth_eval = requestReauth_def beginReauth_start_def reauthBegin_start_def
  reauth_requests_def access0_def store0_def bearer_def tokenStore_get_def authHeaders_def Let_def

theorem requestReauth_once_witness:
  "status access0 = Authenticated \<and> \<not> reauthOpen access0 \<and> \<not> reauthLoading access0 \<and>
   length (reauth_requests (snd (requestReauth access0 access0))) = 1 \<and>
   requestReauth (snd (requestReauth access0 access0)) (snd (requestReauth access0 access0))
     = (None, snd (requestReauth access0 access0))"
proof -
  have h: "status access0 = Authenticated \<and> \<not> reauthOpen access0 \<and> \<not> reauthLoading access0"
    by (simp add: access0_def)
  have e: "reauth_requests access0 = []" by (simp add: reauth_requests_def access0_def store0_def)
  from requestReauth_once[of access0 access0] h
  obtain req st1 where s: "requestReauth access0 access0 = (Some req, st1)"
      "reauth_requests st1 = reauth_requests access0 @ [req]"
      "requestReauth st1 st1 = (None, st1)"
    by blast
  from s e have "length (reauth_requests (snd (requestReauth access0 access0))) = 1 \<and>
     requestReauth (snd (requestReauth access0 access0)) (snd (requestReauth access0 access0))
     = (None, snd (requestReauth access0 access0))"
    by simp
  with h show ?thesis by simp
qed

text \<open>
  Against C8 as stated: two calls of the callback of one render both pass the guard, which
  reads the values of that render, and two negotiations are begun.
\<close>

theorem requestReauth_twice_same_render:
  "map url (wire (api (snd (requestReauth access0 (snd (requestReauth access0 access0))))))
     = [''/v1/reauth'', ''/v1/reauth'']"
  by (simp add: reauth_eval)

section \<open>Properties of the credential update session\<close>

lemmas cs_eval = cs0_def cs_totp_def status0_def status_totp_def status_try_again_def env_of_def
  answer_all_def reject_all_def sendCredentialUpdate_def Let_def

subsection \<open>Staging a password\<close>

lemma beginTotpEnrollment_opens:
  "fst (beginTotpEnrollment env st) = Inr () \<and>
   totpModalOpen (snd (beginTotpEnrollment env st)) \<and>
   sent (snd (beginTotpEnrollment env st)) = sent st @ [TotpGenerate] \<and>
   password (snd (beginTotpEnrollment env st)) = password st \<and>
   passwordConfirm (snd (beginTotpEnrollment env st)) = passwordConfirm st \<and>
   message (snd (beginTotpEnrollment env st)) = message st \<and>
   \<not> loading (snd (beginTotpEnrollment env st))"
  by (simp add: beginTotpEnrollment_def sendCredentialUpdate_def Let_def
      split: sum.splits option.splits)

text \<open>
  Claim C5. \<open>submitPasswordChange\<close> returns. With an empty password, or one that differs
  from its confirmation, it only sets the mismatch message: no request is made. Otherwise,
  when the server answers the password with a status \<open>ns\<close>, the password is staged (the
  fields are cleared, the staged message is set); if the warnings of \<open>ns\<close> include
  \<open>MfaRequired\<close> the TOTP enrollment is begun next (\<open>totpgenerate\<close> is the second
  request) and the TOTP dialog is left open; if not, no further request is made.
\<close>

theorem submitPasswordChange_staging:
  assumes "submitPasswordChange env st = (r, st')"
  shows "r = Inr () \<and>
    (password st = [] \<or> password st \<noteq> passwordConfirm st \<longrightarrow>
       st' = st\<lparr>message := Some (msg env ''messagePasswordMismatch'')\<rparr> \<and> sent st' = sent st) \<and>
    (password st \<noteq> [] \<and> password st = passwordConfirm st \<and>
     server env (sent st @ [SetPassword (password st)]) = Inr ns \<longrightarrow>
       password st' = [] \<and> passwordConfirm st' = [] \<and>
       message st' = Some (msg env ''messagePasswordStaged'') \<and>
       (if ''MfaRequired'' \<in> set (warnings ns)
        then sent st' = sent st @ [SetPassword (password st), TotpGenerate] \<and> totpModalOpen st'
        else sent st' = sent st @ [SetPassword (password st)] \<and> cu_status st' = ns \<and>
             totpModalOpen st' = totpModalOpen st))"
proof -
  have r: "r = Inr ()"
    using assms beginTotpEnrollment_opens[of env]
    by (auto simp: submitPasswordChange_def sendCredentialUpdate_def Let_def
        split: if_splits sum.splits prod.splits)
  have a: "st' = st\<lparr>message := Some (msg env ''messagePasswordMismatch'')\<rparr> \<and> sent st' = sent st"
    if "password st = [] \<or> password st \<noteq> passwordConfirm st"
    using assms that by (auto simp: submitPasswordChange_def)
  have b: "password st' = [] \<and> passwordConfirm st' = [] \<and>
       message st' = Some (msg env ''messagePasswordStaged'') \<and>
       (if ''MfaRequired'' \<in> set (warnings ns)
        then sent st' = sent st @ [SetPassword (password st), TotpGenerate] \<and> totpModalOpen st'
        else sent st' = sent st @ [SetPassword (password st)] \<and> cu_status st' = ns \<and>
             totpModalOpen st' = totpModalOpen st)"
    if h: "password st \<noteq> [] \<and> password st = passwordConfirm st \<and>
     server env (sent st @ [SetPassword (password st)]) = Inr ns"
  proof (cases "''MfaRequired'' \<in> set (warnings ns)")
    case False
    with assms h show ?thesis
      by (auto simp: submitPasswordChange_def sendCredentialUpdate_def Let_def)
  next
    case True
    define st3 where "st3 = st\<lparr>loading := True, message := None, totpCancelled := False,
        sent := sent st @ [SetPassword (password st)],
        cu_status := ns, password := [], passwordConfirm := [], showPasswordForm := False,
        passwordNotice := Some (msg env ''messagePasswordSetNotice''),
        message := Some (msg env ''messagePasswordStaged'')\<rparr>"
    from assms h True have "st' = (snd (beginTotpEnrollment env st3))\<lparr>loading := False\<rparr>"
      using beginTotpEnrollment_opens[of env st3]
      by (auto simp: submitPasswordChange_def sendCredentialUpdate_def Let_def st3_def
          split: prod.splits sum.splits)
    with beginTotpEnrollment_opens[of env st3] True show ?thesis
      by (simp add: st3_def)
  qed
  from r a b show ?thesis by blast
qed

text \<open>
  The scenario of the specification: MFA is required, \<open>Abc123!!\<close> is staged, the TOTP
  enrollment is begun and its dialog is open.
\<close>

theorem submitPasswordChange_staging_witness:
  "password cs0 \<noteq> [] \<and> password cs0 = passwordConfirm cs0 \<and>
   server (env_of (answer_all status_totp)) (sent cs0 @ [SetPassword (password cs0)]) = Inr status_totp \<and>
   ''MfaRequired'' \<in> set (warnings status_totp) \<and>
   sent (snd (submitPasswordChange (env_of (answer_all status_totp)) cs0))
     = [SetPassword ''Abc123!!'', TotpGenerate] \<and>
   totpModalOpen (snd (submitPasswordChange (env_of (answer_all status_totp)) cs0))"
proof -
  let ?env = "env_of (answer_all status_totp)"
  have run: "submitPasswordChange ?env cs0
      = (fst (submitPasswordChange ?env cs0), snd (submitPasswordChange ?env cs0))"
    by simp
  have pw: "password cs0 \<noteq> [] \<and> password cs0 = passwordConfirm cs0" by (simp add: cs0_def)
  have srv: "server ?env (sent cs0 @ [SetPassword (password cs0)]) = Inr status_totp"
    by (simp add: env_of_def answer_all_def)
  have mfa: "''MfaRequired'' \<in> set (warnings status_totp)"
    by (simp add: status_totp_def status0_def)
  from submitPasswordChange_staging[OF run, of status_totp] pw srv mfa
  have "sent (snd (submitPasswordChange ?env cs0)) = sent cs0 @ [SetPassword (password cs0), TotpGenerate]
      \<and> totpModalOpen (snd (submitPasswordChange ?env cs0))"
    by auto
  then have "sent (snd (submitPasswordChange ?env cs0)) = [SetPassword ''Abc123!!'', TotpGenerate]
      \<and> totpModalOpen (snd (submitPasswordChange ?env cs0))"
    by (simp add: cs0_def)
  with pw srv mfa show ?thesis by blast
qed

subsection \<open>Verifying a TOTP code\<close>

text \<open>
  Claim C6. When the request of \<open>submitTotpEnrollment\<close> (\<open>totpverify\<close> with code and label,
  or \<open>totpacceptsha1\<close>) is answered by a status \<open>ns\<close>, the snapshot becomes \<open>ns\<close> and its
  \<open>mfaregstate\<close> decides: \<open>TotpInvalidSha1\<close> sets the offer to accept SHA-1 and its message;
  \<open>TotpTryAgain\<close> sets the retry message; \<open>TotpNameTryAgain n\<close> sets the label message made
  with \<open>n\<close>; in these three the dialog, the payload and the QR code stay as they were. Any
  other value closes the dialog and clears payload, QR code, label and code.
\<close>

theorem submitTotpEnrollment_outcomes:
  assumes "submitTotpEnrollment env acceptSha1 st = (r, st')"
      and "totpPayload st \<noteq> None"
      and "acceptSha1 \<or> (trim (totpLabel st) \<noteq> [] \<and> trim (totpCode st) \<noteq> [])"
      and "intent = (if acceptSha1 then TotpAcceptSha1
                     else TotpVerify (number_of env (totpCode st)) (trim (totpLabel st)))"
      and "server env (sent st @ [intent]) = Inr ns"
  shows "r = Inr () \<and> sent st' = sent st @ [intent] \<and> cu_status st' = ns \<and> \<not> loading st' \<and>
    (case mfaregstate ns of
       MfaTotpInvalidSha1 \<Rightarrow>
         totpSha1Warning st' \<and> totpError st' = Some (msg env ''messageTotpSha1'') \<and>
         totpModalOpen st' = totpModalOpen st \<and> totpPayload st' = totpPayload st \<and>
         totpQr st' = totpQr st
     | MfaTotpTryAgain \<Rightarrow>
         totpError st' = Some (msg env ''messageTotpTryAgain'') \<and>
         totpModalOpen st' = totpModalOpen st \<and> totpPayload st' = totpPayload st \<and>
         totpQr st' = totpQr st \<and> totpSha1Warning st' = totpSha1Warning st
     | MfaTotpNameTryAgain n \<Rightarrow>
         totpError st' = Some (msg_name env ''messageTotpNameInvalid'' n) \<and>
         totpModalOpen st' = totpModalOpen st \<and> totpPayload st' = totpPayload st \<and>
         totpQr st' = totpQr st \<and> totpSha1Warning st' = totpSha1Warning st
     | _ \<Rightarrow>
         \<not> totpModalOpen st' \<and> totpPayload st' = None \<and> totpQr st' = None \<and>
         totpLabel st' = [] \<and> totpCode st' = [] \<and> totpError st' = None)"
  using assms
  by (cases "mfaregstate ns")
     (auto simp: submitTotpEnrollment_def sendCredentialUpdate_def Let_def split: if_splits)

text \<open>
  The scenario of the specification: the answer \<open>TotpTryAgain\<close> sets the message, the dialog
  stays open, payload and QR code are the ones shown before.
\<close>

theorem submitTotpEnrollment_outcomes_witness:
  "totpPayload cs_totp \<noteq> None \<and>
   trim (totpLabel cs_totp) \<noteq> [] \<and> trim (totpCode cs_totp) \<noteq> [] \<and>
   server (env_of (answer_all status_try_again)) (sent cs_totp @ [TotpVerify (Some 123456) ''phone''])
     = Inr status_try_again \<and>
   totpError (snd (submitTotpEnrollment (env_of (answer_all status_try_again)) False cs_totp))
     = Some ''profile.messageTotpTryAgain'' \<and>
   totpModalOpen (snd (submitTotpEnrollment (env_of (answer_all status_try_again)) False cs_totp)) \<and>
   totpPayload (snd (submitTotpEnrollment (env_of (answer_all status_try_again)) False cs_totp))
     = Some \<lparr>uri = ''otpauth://totp/alice'', secret = ''JBSWY3DP''\<rparr> \<and>
   totpQr (snd (submitTotpEnrollment (env_of (answer_all status_try_again)) False cs_totp))
     = Some ''data:image/png;base64,AAAA''"
proof -
  let ?env = "env_of (answer_all status_try_again)"
  let ?run = "submitTotpEnrollment ?env False cs_totp"
  have run: "?run = (fst ?run, snd ?run)" by simp
  have pl: "totpPayload cs_totp \<noteq> None" by (simp add: cs_totp_def)
  have tr: "trim (totpLabel cs_totp) \<noteq> [] \<and> trim (totpCode cs_totp) \<noteq> []"
    by (simp add: cs_totp_def cs0_def trim_def is_space_def)
  have it: "TotpVerify (Some 123456) ''phone'' =
      (if False then TotpAcceptSha1
       else TotpVerify (number_of ?env (totpCode cs_totp)) (trim (totpLabel cs_totp)))"
    by (simp add: cs_totp_def cs0_def trim_def is_space_def env_of_def)
  have srv: "server ?env (sent cs_totp @ [TotpVerify (Some 123456) ''phone'']) = Inr status_try_again"
    by (simp add: env_of_def answer_all_def)
  from submitTotpEnrollment_outcomes[OF run pl disjI2[OF tr] it srv]
  have "totpError (snd ?run) = Some (msg ?env ''messageTotpTryAgain'') \<and>
        totpModalOpen (snd ?run) = totpModalOpen cs_totp \<and>
        totpPayload (snd ?run) = totpPayload cs_totp \<and> totpQr (snd ?run) = totpQr cs_totp"
    by (simp add: status_try_again_def)
  then have "totpError (snd ?run) = Some ''profile.messageTotpTryAgain'' \<and>
        totpModalOpen (snd ?run) \<and>
        totpPayload (snd ?run) = Some \<lparr>uri = ''otpauth://totp/alice'', secret = ''JBSWY3DP''\<rparr> \<and>
        totpQr (snd ?run) = Some ''data:image/png;base64,AAAA''"
    by (simp add: cs_totp_def env_of_def)
  with pl tr srv show ?thesis by simp
qed

subsection \<open>Failures\<close>

lemma answered_first:
  "server env (sent st @ [i]) = Inr ns \<Longrightarrow>
   \<exists>k. length (sent st) < k \<and> k \<le> Suc (length (sent st)) \<and>
       server env (take k (sent st @ [i])) = Inr ns"
  by (rule exI[of _ "Suc (length (sent st))"]) simp

lemma contract_removePasskey:
  "removePasskey env uuid st = (r, st') \<Longrightarrow> failure_contract env (RemovePasskey uuid) st r st'"
  unfolding failure_contract_def
  by (auto simp: removePasskey_def sendCredentialUpdate_def Let_def
      split: sum.splits dest: answered_first)

lemma contract_removePrimaryCredential:
  "removePrimaryCredential env st = (r, st') \<Longrightarrow> failure_contract env RemovePrimaryCredential st r st'"
  unfolding failure_contract_def
  by (auto simp: removePrimaryCredential_def sendCredentialUpdate_def Let_def
      split: sum.splits dest: answered_first)

lemma contract_cancelTotpEnrollment:
  "cancelTotpEnrollment env st = (r, st') \<Longrightarrow> failure_contract env CancelTotpEnrollment st r st'"
  unfolding failure_contract_def
  by (auto simp: cancelTotpEnrollment_def sendCredentialUpdate_def Let_def
      split: sum.splits dest: answered_first)

lemma contract_beginPasskeyEnrollment:
  "beginPasskeyEnrollment env st = (r, st') \<Longrightarrow> failure_contract env BeginPasskeyEnrollment st r st'"
  unfolding failure_contract_def
  by (auto simp: beginPasskeyEnrollment_def sendCredentialUpdate_def Let_def
      split: sum.splits option.splits)

lemma contract_submitPasskeyLabel:
  "submitPasskeyLabel env st = (r, st') \<Longrightarrow> failure_contract env SubmitPasskeyLabel st r st'"
  unfolding failure_contract_def
  by (auto simp: submitPasskeyLabel_def sendCredentialUpdate_def Let_def
      split: sum.splits option.splits if_splits dest: answered_first)

lemma contract_beginTotpEnrollment:
  "beginTotpEnrollment env st = (r, st') \<Longrightarrow> failure_contract env BeginTotpEnrollment st r st'"
  unfolding failure_contract_def
  by (auto simp: beginTotpEnrollment_def sendCredentialUpdate_def Let_def
      split: sum.splits option.splits if_splits dest: answered_first)

lemma contract_submitTotpEnrollment:
  "submitTotpEnrollment env a st = (r, st') \<Longrightarrow> failure_contract env (SubmitTotpEnrollment a) st r st'"
  unfolding failure_contract_def
  by (auto simp: submitTotpEnrollment_def sendCredentialUpdate_def Let_def
      split: sum.splits option.splits if_splits cu_reg_state.splits dest: answered_first)


lemma beginTotpEnrollment_trace:
  "sent (snd (beginTotpEnrollment env st)) = sent st @ [TotpGenerate]"
  by (simp add: beginTotpEnrollment_def sendCredentialUpdate_def Let_def
      split: sum.splits option.splits)

lemma beginTotpEnrollment_status:
  "cu_status (snd (beginTotpEnrollment env st)) = cu_status st \<or>
   server env (sent st @ [TotpGenerate]) = Inr (cu_status (snd (beginTotpEnrollment env st)))"
  by (simp add: beginTotpEnrollment_def sendCredentialUpdate_def Let_def
      split: sum.splits option.splits)

lemma beginTotpEnrollment_returns: "fst (beginTotpEnrollment env st) = Inr ()"
  by (simp add: beginTotpEnrollment_def sendCredentialUpdate_def Let_def
      split: sum.splits option.splits)

lemma contract_submitPasswordChange:
  assumes run: "submitPasswordChange env st = (r, st')"
  shows "failure_contract env SubmitPasswordChange st r st'"
proof (cases "password st = [] \<or> password st \<noteq> passwordConfirm st")
  case True
  with run show ?thesis
    unfolding failure_contract_def by (auto simp: submitPasswordChange_def)
next
  case ok: False
  show ?thesis
  proof (cases "server env (sent st @ [SetPassword (password st)])")
    case (Inl e)
    with run ok show ?thesis
      unfolding failure_contract_def
      by (auto simp: submitPasswordChange_def sendCredentialUpdate_def Let_def)
  next
    case (Inr ns)
    define st3 where "st3 = st\<lparr>loading := True, message := None, totpCancelled := False,
        sent := sent st @ [SetPassword (password st)],
        cu_status := ns, password := [], passwordConfirm := [], showPasswordForm := False,
        passwordNotice := Some (msg env ''messagePasswordSetNotice''),
        message := Some (msg env ''messagePasswordStaged'')\<rparr>"
    show ?thesis
    proof (cases "''MfaRequired'' \<in> set (warnings ns)")
      case False
      with run ok Inr show ?thesis
        unfolding failure_contract_def
        by (auto simp: submitPasswordChange_def sendCredentialUpdate_def Let_def
            dest: answered_first)
    next
      case True
      from run ok Inr True have st': "st' = (snd (beginTotpEnrollment env st3))\<lparr>loading := False\<rparr>"
        and r: "r = Inr ()"
        using beginTotpEnrollment_returns[of env st3]
        by (auto simp: submitPasswordChange_def sendCredentialUpdate_def Let_def st3_def
            split: prod.splits sum.splits)
      have tr: "sent st' = sent st @ [SetPassword (password st), TotpGenerate]"
        using beginTotpEnrollment_trace[of env st3] by (simp add: st' st3_def)
      have first: "take (Suc (length (sent st))) (sent st') = sent st @ [SetPassword (password st)]"
        by (simp add: tr)
      have cs: "cu_status st' = ns \<or> server env (sent st') = Inr (cu_status st')"
        using beginTotpEnrollment_status[of env st3] tr by (simp add: st' st3_def)
      have ex: "\<exists>k. length (sent st) < k \<and> k \<le> length (sent st') \<and>
              server env (take k (sent st')) = Inr (cu_status st')"
      proof (rule disjE[OF cs])
        assume "cu_status st' = ns"
        with Inr first show ?thesis
          by (intro exI[of _ "Suc (length (sent st))"]) (simp add: tr)
      next
        assume "server env (sent st') = Inr (cu_status st')"
        then show ?thesis
          by (intro exI[of _ "length (sent st')"]) (simp add: tr)
      qed
      have c2: "take (length (sent st)) (sent st') = sent st" by (simp add: tr)
      have c3: "sent st' \<noteq> sent st" by (simp add: tr)
      have c4: "local_rejection SubmitPasswordChange st = None" using ok by auto
      have c5: "server env (take (Suc (length (sent st))) (sent st')) = Inr ns"
        using Inr by (simp only: first)
      show ?thesis
        unfolding failure_contract_def
        using r c2 c3 c4 c5 ex by simp
    qed
  qed
qed

text \<open>
  Claim C7. Every operation of the credential update session returns (no error is thrown
  out of it). It replaces the snapshot only by the answer to one of its own requests; when
  a local check rejects its input it makes no request and only shows the check's message
  in its sub-flow; and when its first request is answered by an error \<open>e\<close> it makes no
  other request (no retry), keeps the snapshot, and shows the text of \<open>e\<close> in its sub-flow.
\<close>

theorem credential_update_failure:
  assumes "run_op env op st = (r, st')"
  shows "r = Inr () \<and>
      take (length (sent st)) (sent st') = sent st \<and>
      (sent st' = sent st \<longrightarrow> cu_status st' = cu_status st) \<and>
      (\<forall>k. local_rejection op st = Some k \<longrightarrow>
           st' = set_flow_message (flow_of op) (msg env k) st) \<and>
      (\<forall>e. length (sent st) < length (sent st') \<and>
           server env (take (Suc (length (sent st))) (sent st')) = Inl e \<longrightarrow>
           length (sent st') = Suc (length (sent st)) \<and> cu_status st' = cu_status st \<and>
           flow_message (flow_of op) st' = Some (failure_text env op e) \<and> \<not> loading st') \<and>
      (cu_status st' \<noteq> cu_status st \<longrightarrow>
         (\<exists>k. length (sent st) < k \<and> k \<le> length (sent st') \<and>
              server env (take k (sent st')) = Inr (cu_status st')))"
proof -
  have "failure_contract env op st r st'"
    using assms
    by (cases op)
       (simp_all add: contract_beginPasskeyEnrollment contract_submitPasskeyLabel
          contract_removePasskey contract_submitPasswordChange contract_beginTotpEnrollment
          contract_submitTotpEnrollment contract_cancelTotpEnrollment
          contract_removePrimaryCredential)
  then show ?thesis unfolding failure_contract_def .
qed

text \<open>
  Removing a passkey against a server that answers 500: the error text is the message of
  the page, the snapshot is kept, one request was made.
\<close>

theorem credential_update_failure_witness:
  "run_op (env_of (reject_all (Error ''Request failed (500): boom''))) (RemovePasskey ''key-1'') cs0
     = (Inr (), cs0\<lparr>message := Some ''Request failed (500): boom'', sent := [PasskeyRemove ''key-1'']\<rparr>) \<and>
   server (env_of (reject_all (Error ''Request failed (500): boom''))) [PasskeyRemove ''key-1'']
     = Inl (Error ''Request failed (500): boom'') \<and>
   cu_status (cs0\<lparr>message := Some ''Request failed (500): boom'', sent := [PasskeyRemove ''key-1'']\<rparr>)
     = cu_status cs0"
proof -
  let ?env = "env_of (reject_all (Error ''Request failed (500): boom''))"
  let ?st' = "cs0\<lparr>message := Some ''Request failed (500): boom'', sent := [PasskeyRemove ''key-1'']\<rparr>"
  have run: "run_op ?env (RemovePasskey ''key-1'') cs0 = (Inr (), ?st')"
    by (simp add: removePasskey_def cs_eval)
  have srv: "server ?env [PasskeyRemove ''key-1''] = Inl (Error ''Request failed (500): boom'')"
    by (simp add: env_of_def reject_all_def)
  have first: "length (sent cs0) < length (sent ?st') \<and>
      server ?env (take (Suc (length (sent cs0))) (sent ?st')) = Inl (Error ''Request failed (500): boom'')"
    by (simp add: cs0_def env_of_def reject_all_def)
  from credential_update_failure[OF run] first
  have "cu_status ?st' = cu_status cs0" by blast
  with run srv show ?thesis by simp
qed

end
